theory Spec2Isabelle
  imports Complex_Main "HOL-Library.Log_Nat"
begin

section \<open>Exceptions\<close>

text \<open>
  The exceptions the modelled code raises.  \<^verbatim>\<open>ValueError\<close> is the one
  \<^verbatim>\<open>set_simulated_time\<close> catches; the other two leave the method that raised them.
\<close>

datatype error = AttributeError | OverflowError | ValueError

section \<open>Python numbers\<close>

text \<open>
  A thermostat's \<open>current_temp\<close> is whatever number the constructor was given, an int of
  any size or a float, and is a float once the automation has added or subtracted 0.5.
  A float is an IEEE 754 double: a rational \<open>m * 2\<^sup>e\<close> with \<open>\<bar>m\<bar> < 2\<^sup>5\<^sup>3\<close> and
  \<open>-1074 \<le> e \<le> 971\<close>, an infinity, or a NaN.  The sign of zero is not modelled; it
  shows only in printed text.
\<close>

datatype pyfloat = Finite rat | PInf | NInf | NaN

datatype pynum = PyInt int | PyFloat pyfloat

text \<open>Rounding to the nearest integer, ties to the even one.\<close>

definition round_half_even :: "rat \<Rightarrow> int" where
  "round_half_even r =
     (let f = \<lfloor>r\<rfloor>; d = r - of_int f
      in if d < 1 / 2 then f else if 1 / 2 < d then f + 1 else if even f then f else f + 1)"

text \<open>For \<open>a > 0\<close>, the \<open>k\<close> with \<open>2\<^sup>k \<le> a < 2\<^sup>k\<^sup>+\<^sup>1\<close>.\<close>

definition floor_log2 :: "rat \<Rightarrow> int" where
  "floor_log2 a = (if 1 \<le> a then bitlen \<lfloor>a\<rfloor> - 1 else - bitlen (\<lceil>1 / a\<rceil> - 1))"

text \<open>
  The double nearest to a rational (round to nearest, ties to even): the value is scaled
  so that its integer part has 53 bits (fewer below \<open>2\<^sup>-\<^sup>1\<^sup>0\<^sup>2\<^sup>2\<close>, where the exponent
  stops at \<open>-1074\<close>), rounded to an integer and scaled back; a result of \<open>2\<^sup>1\<^sup>0\<^sup>2\<^sup>4\<close> or
  more is an infinity.
\<close>

definition round_double :: "rat \<Rightarrow> pyfloat" where
  "round_double x =
     (if x = 0 then Finite 0
      else let a = \<bar>x\<bar>;
               e = max (floor_log2 a - 52) (- 1074);
               r = of_int (round_half_even (a / 2 powi e)) * 2 powi e
           in if 2 ^ 1024 \<le> r then (if 0 < x then PInf else NInf)
              else Finite (if 0 < x then r else - r))"

text \<open>\<open>f + c\<close> and \<open>f - c\<close> for a float \<open>f\<close> and a finite float constant \<open>c\<close>.\<close>

fun float_add :: "pyfloat \<Rightarrow> rat \<Rightarrow> pyfloat" where
  "float_add (Finite x) c = round_double (x + c)"
| "float_add PInf c = PInf"
| "float_add NInf c = NInf"
| "float_add NaN c = NaN"

fun float_sub :: "pyfloat \<Rightarrow> rat \<Rightarrow> pyfloat" where
  "float_sub (Finite x) c = round_double (x - c)"
| "float_sub PInf c = PInf"
| "float_sub NInf c = NInf"
| "float_sub NaN c = NaN"

text \<open>
  An int operand of a float operation is converted to the nearest double first; an int
  that rounds beyond the largest double raises \<^verbatim>\<open>OverflowError\<close>.
\<close>

fun to_float :: "pynum \<Rightarrow> error + pyfloat" where
  "to_float (PyInt i) =
     (case round_double (of_int i) of Finite q \<Rightarrow> Inr (Finite q) | _ \<Rightarrow> Inl OverflowError)"
| "to_float (PyFloat f) = Inr f"

text \<open>\<open>x + c\<close> and \<open>x - c\<close> for a number \<open>x\<close> and a finite float constant \<open>c\<close>.\<close>

definition num_add :: "pynum \<Rightarrow> rat \<Rightarrow> error + pynum" where
  "num_add x c = (case to_float x of Inl e \<Rightarrow> Inl e | Inr f \<Rightarrow> Inr (PyFloat (float_add f c)))"

definition num_sub :: "pynum \<Rightarrow> rat \<Rightarrow> error + pynum" where
  "num_sub x c = (case to_float x of Inl e \<Rightarrow> Inl e | Inr f \<Rightarrow> Inr (PyFloat (float_sub f c)))"

text \<open>
  \<open>x < n\<close> and \<open>n < x\<close> for a number \<open>x\<close> and an int \<open>n\<close>.  Python compares an int
  and a float by their exact values; a NaN compares false.
\<close>

fun num_less_int :: "pynum \<Rightarrow> int \<Rightarrow> bool" where
  "num_less_int (PyInt i) n = (i < n)"
| "num_less_int (PyFloat (Finite q)) n = (q < of_int n)"
| "num_less_int (PyFloat PInf) n = False"
| "num_less_int (PyFloat NInf) n = True"
| "num_less_int (PyFloat NaN) n = False"

fun int_less_num :: "int \<Rightarrow> pynum \<Rightarrow> bool" where
  "int_less_num n (PyInt i) = (n < i)"
| "int_less_num n (PyFloat (Finite q)) = (of_int n < q)"
| "int_less_num n (PyFloat PInf) = True"
| "int_less_num n (PyFloat NInf) = False"
| "int_less_num n (PyFloat NaN) = False"

text \<open>The value of a finite number.\<close>

fun num_val :: "pynum \<Rightarrow> rat option" where
  "num_val (PyInt i) = Some (of_int i)"
| "num_val (PyFloat (Finite q)) = Some q"
| "num_val (PyFloat f) = None"

section \<open>Console output\<close>

text \<open>
  Every method of \<^verbatim>\<open>smart_home_control.py\<close> reports through \<^verbatim>\<open>print\<close>.  The model keeps
  the printed lines as a list, one constructor per \<^verbatim>\<open>print\<close> statement of the source,
  carrying the values the f-string interpolates (so no number formatting is modelled).
\<close>

datatype msg =
    M_turned_on string              \<comment> \<open>\<^verbatim>\<open>[{name}] turned ON.\<close>\<close>
  | M_already_on string             \<comment> \<open>\<^verbatim>\<open>[{name}] is already ON.\<close>\<close>
  | M_turned_off string             \<comment> \<open>\<^verbatim>\<open>[{name}] turned OFF.\<close>\<close>
  | M_already_off string            \<comment> \<open>\<^verbatim>\<open>[{name}] is already OFF.\<close>\<close>
  | M_brightness_set string int     \<comment> \<open>\<^verbatim>\<open>[{name}] brightness set to {brightness}%.\<close>\<close>
  | M_invalid_brightness string     \<comment> \<open>\<^verbatim>\<open>[{name}] Invalid brightness level. Must be 0-100.\<close>\<close>
  | M_target_set string int         \<comment> \<open>\<^verbatim>\<open>[{name}] target temperature set to {target_temp}.\<close>\<close>
  | M_invalid_target string         \<comment> \<open>\<^verbatim>\<open>[{name}] Invalid target temperature. Must be 10-30.\<close>\<close>
  | M_mode_heating string pynum int   \<comment> \<open>\<^verbatim>\<open>[{name}] Mode: Heating (Current: .., Target: ..)\<close>\<close>
  | M_mode_cooling string pynum int   \<comment> \<open>\<^verbatim>\<open>[{name}] Mode: Cooling (Current: .., Target: ..)\<close>\<close>
  | M_mode_idle string pynum int      \<comment> \<open>\<^verbatim>\<open>[{name}] Mode: Idle (Current: .., Target: ..)\<close>\<close>
  | M_thermostat_off string         \<comment> \<open>\<^verbatim>\<open>[{name}] Thermostat turned OFF.\<close>\<close>
  | M_door_locked string            \<comment> \<open>\<^verbatim>\<open>[{name}] Door LOCKED.\<close>\<close>
  | M_door_already_locked string    \<comment> \<open>\<^verbatim>\<open>[{name}] Door is already LOCKED.\<close>\<close>
  | M_door_unlocked string          \<comment> \<open>\<^verbatim>\<open>[{name}] Door UNLOCKED.\<close>\<close>
  | M_door_already_unlocked string  \<comment> \<open>\<^verbatim>\<open>[{name}] Door is already UNLOCKED.\<close>\<close>
  | M_lock_power_always_on string   \<comment> \<open>\<^verbatim>\<open>[{name}] Lock power is always on.\<close>\<close>
  | M_lock_power_cannot_off string  \<comment> \<open>\<^verbatim>\<open>[{name}] Lock power cannot be turned off (it's always ready).\<close>\<close>
  | M_hub_initialized int int       \<comment> \<open>\<^verbatim>\<open>Smart Home Hub initialized. Current simulated time: HH:MM\<close>\<close>
  | M_added_device string           \<comment> \<open>\<^verbatim>\<open>Added device: {name}\<close>\<close>
  | M_time_advanced int int int     \<comment> \<open>\<^verbatim>\<open>Simulated time advanced by {minutes} minutes. New time: HH:MM\<close>\<close>
  | M_time_set int int              \<comment> \<open>\<^verbatim>\<open>Simulated time set to: HH:MM\<close>\<close>
  | M_invalid_hour_or_minute        \<comment> \<open>\<^verbatim>\<open>Invalid hour or minute. Hour must be 0-23, minute 0-59.\<close>\<close>
  | M_running_rules                 \<comment> \<open>\<^verbatim>\<open>--- Running Automation Rules ---\<close>\<close>
  | M_auto_2300                     \<comment> \<open>\<^verbatim>\<open>[AUTOMATION] It's 23:00. Turning off Living Room Light.\<close>\<close>
  | M_auto_1800                     \<comment> \<open>\<^verbatim>\<open>[AUTOMATION] It's 18:00. Turning on Front Door Light.\<close>\<close>
  | M_auto_2200                     \<comment> \<open>\<^verbatim>\<open>[AUTOMATION] It's 22:00. Locking Front Door.\<close>\<close>
  | M_temp_rise string pynum       \<comment> \<open>\<^verbatim>\<open>[{name}] Simulated temp rise to {current_temp}.\<close>\<close>
  | M_temp_drop string pynum       \<comment> \<open>\<^verbatim>\<open>[{name}] Simulated temp drop to {current_temp}.\<close>\<close>
  | M_rules_complete                \<comment> \<open>\<^verbatim>\<open>--- Automation Rules Check Complete ---\<close>\<close>

section \<open>Devices\<close>

text \<open>
  \<^verbatim>\<open>class SmartDevice\<close> and its three subclasses, as a record and its extensions: a
  function on the scheme \<open>'a smart_device_scheme\<close> is a method every subclass inherits.
\<close>

record smart_device =
  name :: string
  is_on :: bool

definition SmartDevice :: "string \<Rightarrow> smart_device" where
  "SmartDevice n = \<lparr>name = n, is_on = False\<rparr>"

definition turn_on :: "'a smart_device_scheme \<Rightarrow> 'a smart_device_scheme \<times> msg list" where
  "turn_on d =
     (if \<not> is_on d then (d\<lparr>is_on := True\<rparr>, [M_turned_on (name d)])
      else (d, [M_already_on (name d)]))"

definition turn_off :: "'a smart_device_scheme \<Rightarrow> 'a smart_device_scheme \<times> msg list" where
  "turn_off d =
     (if is_on d then (d\<lparr>is_on := False\<rparr>, [M_turned_off (name d)])
      else (d, [M_already_off (name d)]))"

subsection \<open>SmartLight\<close>

record smart_light = smart_device +
  brightness :: int

text \<open>\<^verbatim>\<open>SmartLight(name, brightness=50)\<close>: the base constructor leaves the light off.\<close>

definition SmartLight :: "string \<Rightarrow> int \<Rightarrow> smart_light" where
  "SmartLight n b = \<lparr>name = n, is_on = False, brightness = b\<rparr>"

definition set_brightness :: "smart_light \<Rightarrow> int \<Rightarrow> smart_light \<times> msg list" where
  "set_brightness l level =
     (if 0 \<le> level \<and> level \<le> 100 then
        (let l1 = l\<lparr>brightness := level\<rparr>;
             (l2, out) =
               (if level > 0 \<and> \<not> is_on l1 then turn_on l1
                else if level = 0 \<and> is_on l1 then turn_off l1
                else (l1, []))
         in (l2, out @ [M_brightness_set (name l2) (brightness l2)]))
      else (l, [M_invalid_brightness (name l)]))"

subsection \<open>SmartThermostat\<close>

datatype mode = Off | Heating | Cooling | Idle

text \<open>
  \<open>current_temp\<close> is a Python number; \<open>target_temp\<close> is an int throughout (the
  constructor calls and \<^verbatim>\<open>set_target_temp\<close> of the program pass ints).
\<close>

record smart_thermostat = smart_device +
  current_temp :: pynum
  target_temp :: int
  mode :: mode

definition SmartThermostat :: "string \<Rightarrow> pynum \<Rightarrow> int \<Rightarrow> smart_thermostat" where
  "SmartThermostat n c t =
     \<lparr>name = n, is_on = False, current_temp = c, target_temp = t, mode = Off\<rparr>"

definition update_mode :: "smart_thermostat \<Rightarrow> smart_thermostat \<times> msg list" where
  "update_mode t =
     (if is_on t then
        (if num_less_int (current_temp t) (target_temp t - 1) then
           (t\<lparr>mode := Heating\<rparr>, [M_mode_heating (name t) (current_temp t) (target_temp t)])
         else if int_less_num (target_temp t + 1) (current_temp t) then
           (t\<lparr>mode := Cooling\<rparr>, [M_mode_cooling (name t) (current_temp t) (target_temp t)])
         else
           (t\<lparr>mode := Idle\<rparr>, [M_mode_idle (name t) (current_temp t) (target_temp t)]))
      else (t\<lparr>mode := Off\<rparr>, []))"

definition set_target_temp :: "smart_thermostat \<Rightarrow> int \<Rightarrow> smart_thermostat \<times> msg list" where
  "set_target_temp t temp =
     (if 10 \<le> temp \<and> temp \<le> 30 then
        (let t1 = t\<lparr>target_temp := temp\<rparr>;
             (t2, out) = update_mode t1
         in (t2, M_target_set (name t1) (target_temp t1) # out))
      else (t, [M_invalid_target (name t)]))"

definition thermostat_turn_on :: "smart_thermostat \<Rightarrow> smart_thermostat \<times> msg list" where
  "thermostat_turn_on t =
     (let (t1, out1) = turn_on t;
          (t2, out2) = update_mode t1
      in (t2, out1 @ out2))"

definition thermostat_turn_off :: "smart_thermostat \<Rightarrow> smart_thermostat \<times> msg list" where
  "thermostat_turn_off t =
     (let (t1, out1) = turn_off t
      in (t1\<lparr>mode := Off\<rparr>, out1 @ [M_thermostat_off (name t1)]))"

subsection \<open>SmartDoorLock\<close>

record smart_door_lock = smart_device +
  is_locked :: bool

text \<open>\<^verbatim>\<open>SmartDoorLock(name, is_locked=True)\<close>: the constructor sets \<open>is_on\<close> to True.\<close>

definition SmartDoorLock :: "string \<Rightarrow> bool \<Rightarrow> smart_door_lock" where
  "SmartDoorLock n l = \<lparr>name = n, is_on = True, is_locked = l\<rparr>"

definition lock :: "smart_door_lock \<Rightarrow> smart_door_lock \<times> msg list" where
  "lock d =
     (if \<not> is_locked d then (d\<lparr>is_locked := True\<rparr>, [M_door_locked (name d)])
      else (d, [M_door_already_locked (name d)]))"

definition unlock :: "smart_door_lock \<Rightarrow> smart_door_lock \<times> msg list" where
  "unlock d =
     (if is_locked d then (d\<lparr>is_locked := False\<rparr>, [M_door_unlocked (name d)])
      else (d, [M_door_already_unlocked (name d)]))"

definition lock_turn_on :: "smart_door_lock \<Rightarrow> smart_door_lock \<times> msg list" where
  "lock_turn_on d = (d, [M_lock_power_always_on (name d)])"

definition lock_turn_off :: "smart_door_lock \<Rightarrow> smart_door_lock \<times> msg list" where
  "lock_turn_off d = (d, [M_lock_power_cannot_off (name d)])"

section \<open>The hub\<close>

subsection \<open>Devices of any class\<close>

text \<open>
  The registry holds objects of any of the four classes; a method call on one of them
  dispatches on its class, and an attribute the class does not have raises
  \<^verbatim>\<open>AttributeError\<close>.
\<close>

datatype device =
    Plain smart_device
  | Light smart_light
  | Thermostat smart_thermostat
  | Lock smart_door_lock

fun dev_name :: "device \<Rightarrow> string" where
  "dev_name (Plain d) = name d"
| "dev_name (Light d) = name d"
| "dev_name (Thermostat d) = name d"
| "dev_name (Lock d) = name d"

fun dev_is_on :: "device \<Rightarrow> bool" where
  "dev_is_on (Plain d) = is_on d"
| "dev_is_on (Light d) = is_on d"
| "dev_is_on (Thermostat d) = is_on d"
| "dev_is_on (Lock d) = is_on d"

fun dev_turn_on :: "device \<Rightarrow> device \<times> msg list" where
  "dev_turn_on (Plain d) = (let (d', out) = turn_on d in (Plain d', out))"
| "dev_turn_on (Light d) = (let (d', out) = turn_on d in (Light d', out))"
| "dev_turn_on (Thermostat d) = (let (d', out) = thermostat_turn_on d in (Thermostat d', out))"
| "dev_turn_on (Lock d) = (let (d', out) = lock_turn_on d in (Lock d', out))"

fun dev_turn_off :: "device \<Rightarrow> device \<times> msg list" where
  "dev_turn_off (Plain d) = (let (d', out) = turn_off d in (Plain d', out))"
| "dev_turn_off (Light d) = (let (d', out) = turn_off d in (Light d', out))"
| "dev_turn_off (Thermostat d) = (let (d', out) = thermostat_turn_off d in (Thermostat d', out))"
| "dev_turn_off (Lock d) = (let (d', out) = lock_turn_off d in (Lock d', out))"

subsection \<open>The simulated clock\<close>

text \<open>
  A \<^verbatim>\<open>datetime.datetime\<close>: the date as its proleptic Gregorian ordinal
  (\<^verbatim>\<open>toordinal()\<close>, from 1 for 0001-01-01 to 3652059 for 9999-12-31) and the time of day.
\<close>

record datetime =
  ordinal :: int
  hour :: int
  minute :: int
  second :: int
  microsecond :: int

definition max_ordinal :: int where
  "max_ordinal = 3652059"

text \<open>
  \<^verbatim>\<open>dt + datetime.timedelta(minutes=m)\<close>: whole minutes are added, the day rolls over, and
  a date outside the supported range raises \<^verbatim>\<open>OverflowError\<close>.
\<close>

definition add_minutes :: "datetime \<Rightarrow> int \<Rightarrow> error + datetime" where
  "add_minutes dt m =
     (let total = hour dt * 60 + minute dt + m;
          d = ordinal dt + total div 1440;
          r = total mod 1440
      in if d < 1 \<or> d > max_ordinal then Inl OverflowError
         else Inr (dt\<lparr>ordinal := d, hour := r div 60, minute := r mod 60\<rparr>))"

text \<open>
  \<^verbatim>\<open>now.replace(hour=h, minute=m, second=0, microsecond=0)\<close>.  CPython's \<^verbatim>\<open>datetime\<close>
  first converts each argument to a C \<^verbatim>\<open>int\<close>, which raises \<^verbatim>\<open>OverflowError\<close> outside
  \<open>-2147483648 .. 2147483647\<close>, and only then checks the fields: an hour outside 0..23 or a
  minute outside 0..59 raises \<^verbatim>\<open>ValueError\<close>.
\<close>

definition c_int_ok :: "int \<Rightarrow> bool" where
  "c_int_ok x = (- 2147483648 \<le> x \<and> x \<le> 2147483647)"

definition replace_time :: "datetime \<Rightarrow> int \<Rightarrow> int \<Rightarrow> error + datetime" where
  "replace_time dt h m =
     (if \<not> c_int_ok h \<or> \<not> c_int_ok m then Inl OverflowError
      else if 0 \<le> h \<and> h \<le> 23 \<and> 0 \<le> m \<and> m \<le> 59
      then Inr (dt\<lparr>hour := h, minute := m, second := 0, microsecond := 0\<rparr>)
      else Inl ValueError)"

subsection \<open>SmartHomeHub\<close>

text \<open>\<^verbatim>\<open>str.lower()\<close>, on ASCII names.\<close>

definition lower_char :: "char \<Rightarrow> char" where
  "lower_char c =
     (let n = (of_char c :: nat) in if 65 \<le> n \<and> n \<le> 90 then char_of (n + 32) else c)"

definition lower :: "string \<Rightarrow> string" where
  "lower s = map lower_char s"

record hub =
  devices :: "string \<rightharpoonup> device"
  simulated_time :: datetime

text \<open>
  \<^verbatim>\<open>SmartHomeHub()\<close>; the argument is what \<^verbatim>\<open>datetime.datetime.now()\<close> returns at the
  call.
\<close>

definition SmartHomeHub :: "datetime \<Rightarrow> hub \<times> msg list" where
  "SmartHomeHub now =
     (let st = now\<lparr>second := 0, microsecond := 0\<rparr>
      in (\<lparr>devices = Map.empty, simulated_time = st\<rparr>,
          [M_hub_initialized (hour st) (minute st)]))"

definition add_device :: "hub \<Rightarrow> device \<Rightarrow> hub \<times> msg list" where
  "add_device h d =
     (h\<lparr>devices := (devices h)(lower (dev_name d) \<mapsto> d)\<rparr>, [M_added_device (dev_name d)])"

definition get_device :: "hub \<Rightarrow> string \<Rightarrow> device option" where
  "get_device h n = devices h (lower n)"

text \<open>
  A device object is registered under the lower-cased name it was added with, so
  writing a mutated object back under that key is the in-place mutation of the source.
\<close>

definition put_device :: "hub \<Rightarrow> string \<Rightarrow> device \<Rightarrow> hub" where
  "put_device h n d = h\<lparr>devices := (devices h)(lower n \<mapsto> d)\<rparr>"

text \<open>Rule 1: turn off the living room light at 23:00.\<close>

definition rule1 :: "hub \<Rightarrow> hub \<times> msg list" where
  "rule1 h =
     (case get_device h ''Living Room Light'' of
        None \<Rightarrow> (h, [])
      | Some d \<Rightarrow>
          if hour (simulated_time h) = 23 \<and> minute (simulated_time h) = 0 \<and> dev_is_on d
          then (let (d', out) = dev_turn_off d
                in (put_device h ''Living Room Light'' d', M_auto_2300 # out))
          else (h, []))"

text \<open>Rule 2: turn on the front door light at 18:00 if it is off.\<close>

definition rule2 :: "hub \<Rightarrow> hub \<times> msg list" where
  "rule2 h =
     (case get_device h ''Front Door Light'' of
        None \<Rightarrow> (h, [])
      | Some d \<Rightarrow>
          if hour (simulated_time h) = 18 \<and> minute (simulated_time h) = 0 \<and> \<not> dev_is_on d
          then (let (d', out) = dev_turn_on d
                in (put_device h ''Front Door Light'' d', M_auto_1800 # out))
          else (h, []))"

text \<open>
  Rule 3: lock the front door at 22:00.  \<^verbatim>\<open>is_locked\<close> is read only at 22:00, and only
  a lock has it.
\<close>

definition rule3 :: "hub \<Rightarrow> error + hub \<times> msg list" where
  "rule3 h =
     (case get_device h ''Front Door Lock'' of
        None \<Rightarrow> Inr (h, [])
      | Some d \<Rightarrow>
          if hour (simulated_time h) = 22 \<and> minute (simulated_time h) = 0
          then (case d of
                  Lock l \<Rightarrow>
                    if \<not> is_locked l
                    then (let (l', out) = lock l
                          in Inr (put_device h ''Front Door Lock'' (Lock l'), M_auto_2200 # out))
                    else Inr (h, [])
                | _ \<Rightarrow> Inl AttributeError)
          else Inr (h, []))"

text \<open>
  Rule 4: the simulated temperature drift of the main thermostat.  \<^verbatim>\<open>mode\<close> is read
  whenever the device is on, and only a thermostat has it.  \<^verbatim>\<open>current_temp += 0.5\<close> and
  \<^verbatim>\<open>current_temp -= 0.5\<close> are float operations: the result is rounded to a double, and
  an int too large for a double raises \<^verbatim>\<open>OverflowError\<close>.
\<close>

definition drift :: "smart_thermostat \<Rightarrow> error + smart_thermostat \<times> msg list" where
  "drift t =
     (case (if mode t = Heating then
              (if num_less_int (current_temp t) (target_temp t)
               then (case num_add (current_temp t) (1 / 2) of
                       Inl e \<Rightarrow> Inl e
                     | Inr c \<Rightarrow>
                         (let t' = t\<lparr>current_temp := c\<rparr>
                          in Inr (t', [M_temp_rise (name t') (current_temp t')])))
               else Inr (t, []))
            else if mode t = Cooling then
              (if int_less_num (target_temp t) (current_temp t)
               then (case num_sub (current_temp t) (1 / 2) of
                       Inl e \<Rightarrow> Inl e
                     | Inr c \<Rightarrow>
                         (let t' = t\<lparr>current_temp := c\<rparr>
                          in Inr (t', [M_temp_drop (name t') (current_temp t')])))
               else Inr (t, []))
            else Inr (t, []))
      of
        Inl e \<Rightarrow> Inl e
      | Inr (t1, out1) \<Rightarrow> (let (t2, out2) = update_mode t1 in Inr (t2, out1 @ out2)))"

definition rule4 :: "hub \<Rightarrow> error + hub \<times> msg list" where
  "rule4 h =
     (case get_device h ''Main Thermostat'' of
        None \<Rightarrow> Inr (h, [])
      | Some d \<Rightarrow>
          if dev_is_on d
          then (case d of
                  Thermostat t \<Rightarrow>
                    (case drift t of
                       Inl e \<Rightarrow> Inl e
                     | Inr (t', out) \<Rightarrow>
                         Inr (put_device h ''Main Thermostat'' (Thermostat t'), out))
                | _ \<Rightarrow> Inl AttributeError)
          else Inr (h, []))"

definition run_automation_rules :: "hub \<Rightarrow> error + hub \<times> msg list" where
  "run_automation_rules h =
     (let (h1, out1) = rule1 h;
          (h2, out2) = rule2 h1
      in case rule3 h2 of
           Inl e \<Rightarrow> Inl e
         | Inr (h3, out3) \<Rightarrow>
             (case rule4 h3 of
                Inl e \<Rightarrow> Inl e
              | Inr (h4, out4) \<Rightarrow>
                  Inr (h4, [M_running_rules] @ out1 @ out2 @ out3 @ out4 @ [M_rules_complete])))"

definition advance_time :: "hub \<Rightarrow> int \<Rightarrow> error + hub \<times> msg list" where
  "advance_time h minutes =
     (case add_minutes (simulated_time h) minutes of
        Inl e \<Rightarrow> Inl e
      | Inr st \<Rightarrow>
          (let h1 = h\<lparr>simulated_time := st\<rparr>
           in case run_automation_rules h1 of
                Inl e \<Rightarrow> Inl e
              | Inr (h2, out) \<Rightarrow> Inr (h2, M_time_advanced minutes (hour st) (minute st) # out)))"

text \<open>
  \<^verbatim>\<open>set_simulated_time(hour, minute)\<close>; \<open>now\<close> is what \<^verbatim>\<open>datetime.datetime.now()\<close>
  returns at the call, the wall clock and not the simulated one.  The \<^verbatim>\<open>except\<close> clause
  catches \<^verbatim>\<open>ValueError\<close> only, and the automation rules raise none.
\<close>

definition set_simulated_time :: "hub \<Rightarrow> datetime \<Rightarrow> int \<Rightarrow> int \<Rightarrow> error + hub \<times> msg list" where
  "set_simulated_time h now hr mi =
     (case replace_time now hr mi of
        Inl e \<Rightarrow> (if e = ValueError then Inr (h, [M_invalid_hour_or_minute]) else Inl e)
      | Inr new_time \<Rightarrow>
          (let h1 = h\<lparr>simulated_time := new_time\<rparr>
           in case run_automation_rules h1 of
                Inl e \<Rightarrow> Inl e
              | Inr (h2, out) \<Rightarrow> Inr (h2, M_time_set (hour new_time) (minute new_time) # out)))"

subsection \<open>The bootstrap of \<^verbatim>\<open>main\<close>\<close>

text \<open>The five devices \<^verbatim>\<open>main()\<close> registers, in its order, on a hub created at \<open>now\<close>.\<close>

definition main_hub :: "datetime \<Rightarrow> hub" where
  "main_hub now =
     (let h0 = fst (SmartHomeHub now);
          h1 = fst (add_device h0 (Light (SmartLight ''Living Room Light'' 50)));
          h2 = fst (add_device h1 (Light (SmartLight ''Bedroom Light'' 75)));
          h3 = fst (add_device h2
                 (Thermostat (SmartThermostat ''Main Thermostat'' (PyInt 25) 22)));
          h4 = fst (add_device h3 (Lock (SmartDoorLock ''Front Door Lock'' True)))
      in fst (add_device h4 (Light (SmartLight ''Front Door Light'' 0))))"

section \<open>Sequences of public operations\<close>

text \<open>
  A call of the public interface: constructing a device and adding it to the hub, a
  method call \<^verbatim>\<open>hub.get_device(n).m(..)\<close> on the device registered under a name, or a
  method of the hub.  A name that is not registered gives \<^verbatim>\<open>None\<close>, and so does not have
  the method; neither does a device of another class.
\<close>

datatype command =
    New_device string
  | New_light string int
  | New_thermostat string pynum int
  | New_lock string bool
  | Turn_on string
  | Turn_off string
  | Set_brightness string int
  | Set_target_temp string int
  | Lock_door string
  | Unlock_door string
  | Advance_time int
  | Set_time datetime int int
  | Run_automation

fun exec :: "hub \<Rightarrow> command \<Rightarrow> error + hub \<times> msg list" where
  "exec h (New_device n) = Inr (add_device h (Plain (SmartDevice n)))"
| "exec h (New_light n b) = Inr (add_device h (Light (SmartLight n b)))"
| "exec h (New_thermostat n c t) = Inr (add_device h (Thermostat (SmartThermostat n c t)))"
| "exec h (New_lock n l) = Inr (add_device h (Lock (SmartDoorLock n l)))"
| "exec h (Turn_on n) =
     (case get_device h n of
        None \<Rightarrow> Inl AttributeError
      | Some d \<Rightarrow> (let (d', out) = dev_turn_on d in Inr (put_device h n d', out)))"
| "exec h (Turn_off n) =
     (case get_device h n of
        None \<Rightarrow> Inl AttributeError
      | Some d \<Rightarrow> (let (d', out) = dev_turn_off d in Inr (put_device h n d', out)))"
| "exec h (Set_brightness n level) =
     (case get_device h n of
        Some (Light l) \<Rightarrow>
          (let (l', out) = set_brightness l level in Inr (put_device h n (Light l'), out))
      | _ \<Rightarrow> Inl AttributeError)"
| "exec h (Set_target_temp n temp) =
     (case get_device h n of
        Some (Thermostat t) \<Rightarrow>
          (let (t', out) = set_target_temp t temp in Inr (put_device h n (Thermostat t'), out))
      | _ \<Rightarrow> Inl AttributeError)"
| "exec h (Lock_door n) =
     (case get_device h n of
        Some (Lock l) \<Rightarrow> (let (l', out) = lock l in Inr (put_device h n (Lock l'), out))
      | _ \<Rightarrow> Inl AttributeError)"
| "exec h (Unlock_door n) =
     (case get_device h n of
        Some (Lock l) \<Rightarrow> (let (l', out) = unlock l in Inr (put_device h n (Lock l'), out))
      | _ \<Rightarrow> Inl AttributeError)"
| "exec h (Advance_time m) = advance_time h m"
| "exec h (Set_time now hr mi) = set_simulated_time h now hr mi"
| "exec h Run_automation = run_automation_rules h"

text \<open>Commands run in order; the first exception ends the run.\<close>

fun exec_all :: "hub \<Rightarrow> command list \<Rightarrow> error + hub \<times> msg list" where
  "exec_all h [] = Inr (h, [])"
| "exec_all h (c # cs) =
     (case exec h c of
        Inl e \<Rightarrow> Inl e
      | Inr (h1, out1) \<Rightarrow>
          (case exec_all h1 cs of
             Inl e \<Rightarrow> Inl e
           | Inr (h2, out2) \<Rightarrow> Inr (h2, out1 @ out2)))"

section \<open>Properties stated by the specification\<close>

text \<open>The brightness-power coupling of a light.\<close>

definition light_inv :: "smart_light \<Rightarrow> bool" where
  "light_inv l = ((brightness l = 0 \<longrightarrow> \<not> is_on l) \<and> (brightness l > 0 \<longrightarrow> is_on l))"

text \<open>
  The dead-band rule in the specification's words: Off when the device is off, Heating
  below \<open>target - 1\<close>, Cooling above \<open>target + 1\<close>, Idle otherwise.
\<close>

definition dead_band :: "bool \<Rightarrow> pynum \<Rightarrow> int \<Rightarrow> mode" where
  "dead_band on cur tgt =
     (if \<not> on then Off
      else if num_less_int cur (tgt - 1) then Heating
      else if int_less_num (tgt + 1) cur then Cooling
      else Idle)"

definition thermo_inv :: "smart_thermostat \<Rightarrow> bool" where
  "thermo_inv t = (mode t = dead_band (is_on t) (current_temp t) (target_temp t))"

definition all_thermo_inv :: "hub \<Rightarrow> bool" where
  "all_thermo_inv h = (\<forall>k t. devices h k = Some (Thermostat t) \<longrightarrow> thermo_inv t)"

text \<open>A number a float operation accepts: a float, or an int that converts to one.\<close>

definition fits_float :: "pynum \<Rightarrow> bool" where
  "fits_float x = (case to_float x of Inl e \<Rightarrow> False | Inr f \<Rightarrow> True)"

text \<open>
  The devices the lock rule and the thermostat rule read have the class the rule
  expects (or are not registered), so that no attribute is missing, and the thermostat's
  temperature is one the drift can compute with.
\<close>

definition expected_classes :: "hub \<Rightarrow> bool" where
  "expected_classes h =
     ((case get_device h ''Front Door Lock'' of
         None \<Rightarrow> True | Some (Lock l) \<Rightarrow> True | Some _ \<Rightarrow> False)
      \<and> (case get_device h ''Main Thermostat'' of
         None \<Rightarrow> True
       | Some (Thermostat t) \<Rightarrow> fits_float (current_temp t)
       | Some _ \<Rightarrow> False))"

text \<open>The thermostat a drift leaves, when it returns.\<close>

definition drifted :: "smart_thermostat \<Rightarrow> smart_thermostat" where
  "drifted t = (case drift t of Inl e \<Rightarrow> t | Inr (t', out) \<Rightarrow> t')"

text \<open>The clock a hub operation leaves, when it returns.\<close>

definition clock_after :: "error + hub \<times> msg list \<Rightarrow> datetime option" where
  "clock_after r = (case r of Inl e \<Rightarrow> None | Inr (h, out) \<Rightarrow> Some (simulated_time h))"

text \<open>A wall-clock reading used in the examples: day 739923 at 10:30:15.\<close>

definition example_now :: datetime where
  "example_now = \<lparr>ordinal = 739923, hour = 10, minute = 30, second = 15, microsecond = 0\<rparr>"

text \<open>
  The registry of \<^verbatim>\<open>main\<close> in the evening, used in the examples: the living room light
  and the thermostat have been turned on and the front door unlocked; the clock reads
  \<open>hr:mi\<close> on day 739923.
\<close>

definition evening_hub :: "int \<Rightarrow> int \<Rightarrow> hub" where
  "evening_hub hr mi =
     \<lparr>devices =
        [''living room light'' \<mapsto>
           Light \<lparr>name = ''Living Room Light'', is_on = True, brightness = 50\<rparr>,
         ''front door light'' \<mapsto>
           Light \<lparr>name = ''Front Door Light'', is_on = False, brightness = 0\<rparr>,
         ''front door lock'' \<mapsto>
           Lock \<lparr>name = ''Front Door Lock'', is_on = True, is_locked = False\<rparr>,
         ''main thermostat'' \<mapsto>
           Thermostat \<lparr>name = ''Main Thermostat'', is_on = True, current_temp = PyInt 25,
                       target_temp = 22, mode = Cooling\<rparr>],
      simulated_time =
        \<lparr>ordinal = 739923, hour = hr, minute = mi, second = 0, microsecond = 0\<rparr>\<rparr>"

section \<open>Lights\<close>

text \<open>
  C3.  \<^verbatim>\<open>set_brightness(level)\<close> with a level outside 0..100 prints the invalid-level
  message and returns the light as it was.  With a level in 0..100 it stores the level,
  then switches the light on when the level is positive and the light was off, switches
  it off when the level is 0 and the light was on, and leaves the power flag alone
  otherwise.
\<close>

theorem set_brightness_spec:
  "(level < 0 \<or> level > 100 \<longrightarrow>
      set_brightness l level = (l, [M_invalid_brightness (name l)]))
   \<and> (0 \<le> level \<and> level \<le> 100 \<longrightarrow>
      fst (set_brightness l level) =
        l\<lparr>brightness := level,
          is_on := (if level > 0 \<and> \<not> is_on l then True
                    else if level = 0 \<and> is_on l then False
                    else is_on l)\<rparr>)"
  by (auto simp: set_brightness_def turn_on_def turn_off_def Let_def)

theorem set_brightness_spec_witness:
  "set_brightness (SmartLight ''Bedroom Light'' 75) 101
     = (SmartLight ''Bedroom Light'' 75, [M_invalid_brightness ''Bedroom Light''])
   \<and> set_brightness (SmartLight ''Bedroom Light'' 75) (- 1)
     = (SmartLight ''Bedroom Light'' 75, [M_invalid_brightness ''Bedroom Light''])
   \<and> fst (set_brightness (SmartLight ''Bedroom Light'' 75) 30)
     = \<lparr>name = ''Bedroom Light'', is_on = True, brightness = 30\<rparr>
   \<and> fst (set_brightness \<lparr>name = ''Bedroom Light'', is_on = True, brightness = 30\<rparr> 0)
     = \<lparr>name = ''Bedroom Light'', is_on = False, brightness = 0\<rparr>"
  using set_brightness_spec [of 101 "SmartLight ''Bedroom Light'' 75"]
    set_brightness_spec [of "- 1" "SmartLight ''Bedroom Light'' 75"]
    set_brightness_spec [of 30 "SmartLight ''Bedroom Light'' 75"]
    set_brightness_spec [of 0 "\<lparr>name = ''Bedroom Light'', is_on = True, brightness = 30\<rparr>"]
  by (simp add: SmartLight_def)

text \<open>
  C10.  On a light, \<^verbatim>\<open>turn_on()\<close> and \<^verbatim>\<open>turn_off()\<close> write the power flag and nothing
  else: the brightness and the name stay.  So the light \<^verbatim>\<open>main\<close> constructs with
  brightness 0 is, once turned on, on with brightness 0.
\<close>

theorem light_power_frame:
  "fst (turn_on (l::smart_light)) = l\<lparr>is_on := True\<rparr>
   \<and> fst (turn_off l) = l\<lparr>is_on := False\<rparr>
   \<and> brightness (fst (turn_on l)) = brightness l
   \<and> brightness (fst (turn_off l)) = brightness l
   \<and> fst (turn_on (SmartLight ''Front Door Light'' 0))
       = \<lparr>name = ''Front Door Light'', is_on = True, brightness = 0\<rparr>"
  by (simp add: turn_on_def turn_off_def SmartLight_def)

text \<open>
  C1, as stated, fails: a light is constructed off whatever its brightness (the default
  is 50), and \<^verbatim>\<open>turn_on()\<close> and \<^verbatim>\<open>turn_off()\<close> do not read or write the brightness.
\<close>

theorem light_inv_counterexample:
  "\<not> light_inv (SmartLight ''Living Room Light'' 50)
   \<and> \<not> light_inv (fst (turn_on (SmartLight ''Front Door Light'' 0)))
   \<and> \<not> light_inv (fst (turn_off (fst (set_brightness (SmartLight ''Bedroom Light'' 75) 75))))"
  by (simp add: light_inv_def SmartLight_def turn_on_def turn_off_def set_brightness_def)

text \<open>
  C1, amended.  The coupling is what a successful \<^verbatim>\<open>set_brightness\<close> establishes: for
  every light and every level in 0..100, the light it returns is off when its brightness
  is 0 and on when its brightness is positive.
\<close>

theorem set_brightness_establishes_inv:
  "0 \<le> level \<Longrightarrow> level \<le> 100 \<Longrightarrow> light_inv (fst (set_brightness l level))"
  by (auto simp: light_inv_def set_brightness_def turn_on_def turn_off_def Let_def)

theorem set_brightness_establishes_inv_witness:
  "light_inv (fst (set_brightness (SmartLight ''Living Room Light'' 50) 0))
   \<and> light_inv (fst (set_brightness (SmartLight ''Living Room Light'' 50) 100))"
  using set_brightness_establishes_inv [of 0 "SmartLight ''Living Room Light'' 50"]
    set_brightness_establishes_inv [of 100 "SmartLight ''Living Room Light'' 50"]
  by simp

section \<open>Door locks\<close>

text \<open>
  C8.  \<^verbatim>\<open>lock()\<close> is idempotent: a second call returns the lock the first call left and
  prints that the door is already locked.  The same holds for \<^verbatim>\<open>unlock()\<close>.
\<close>

theorem lock_unlock_idempotent:
  "lock (fst (lock d)) = (fst (lock d), [M_door_already_locked (name d)])
   \<and> unlock (fst (unlock d)) = (fst (unlock d), [M_door_already_unlocked (name d)])
   \<and> is_locked (fst (lock d))
   \<and> \<not> is_locked (fst (unlock d))"
  by (simp add: lock_def unlock_def)

text \<open>
  C9.  On a door lock, \<^verbatim>\<open>turn_on()\<close> and \<^verbatim>\<open>turn_off()\<close> return the lock unchanged,
  whatever its state; each prints its one line about the lock's power.  This is also
  what a call dispatched on a registered lock does.
\<close>

theorem lock_power_inert:
  "lock_turn_on d = (d, [M_lock_power_always_on (name d)])
   \<and> lock_turn_off d = (d, [M_lock_power_cannot_off (name d)])
   \<and> dev_turn_on (Lock d) = (Lock d, [M_lock_power_always_on (name d)])
   \<and> dev_turn_off (Lock d) = (Lock d, [M_lock_power_cannot_off (name d)])"
  by (simp add: lock_turn_on_def lock_turn_off_def)

section \<open>Python numbers: auxiliary facts\<close>

text \<open>
  A multiple of 1/2 of magnitude at most \<open>10\<^sup>1\<^sup>5\<close> is a double, so rounding leaves it
  as it is; a power of two from \<open>2\<^sup>1\<^sup>0\<^sup>2\<^sup>4\<close> on is beyond every double.
\<close>

lemma round_half_even_of_int: "round_half_even (of_int m) = m"
  by (simp add: round_half_even_def)

lemma floor_log2_le:
  assumes "0 < a" "a \<le> 10 ^ 15"
  shows "floor_log2 a \<le> 50"
proof (cases "1 \<le> a")
  case True
  have "\<lfloor>a\<rfloor> \<le> 10 ^ 15"
    using assms(2) by (simp add: floor_le_iff)
  then have "\<lfloor>a\<rfloor> < 2 ^ nat 51" by simp
  then have "bitlen \<lfloor>a\<rfloor> \<le> 51"
    by (simp add: bitlen_le_iff_power)
  with True show ?thesis by (simp add: floor_log2_def)
next
  case False
  then show ?thesis
    using bitlen_nonneg [of "\<lceil>1 / a\<rceil> - 1"] by (simp add: floor_log2_def)
qed

lemma round_double_exact:
  assumes "2 * x \<in> \<int>" "\<bar>x\<bar> \<le> 10 ^ 15"
  shows "round_double x = Finite x"
proof (cases "x = 0")
  case True
  then show ?thesis by (simp add: round_double_def)
next
  case False
  define a where "a = \<bar>x\<bar>"
  define e where "e = max (floor_log2 a - 52) (- 1074)"
  define n where "n = nat (- e - 1)"
  have a: "0 < a" "a \<le> 10 ^ 15"
    using False assms(2) by (simp_all add: a_def)
  have "2 * a \<in> \<int>"
    using assms(1) Ints_minus [of "2 * x"] by (auto simp: a_def abs_if)
  then obtain k :: int where k: "2 * a = of_int k"
    by (auto elim: Ints_cases)
  have e: "e \<le> - 1" "- 1074 \<le> e"
    using floor_log2_le [OF a] by (simp_all add: e_def)
  then have en: "e = - int (Suc n)"
    by (simp add: n_def)
  have p: "(2::rat) powi e = 1 / 2 ^ Suc n"
    unfolding en by (simp only: power_int_minus power_int_of_nat inverse_eq_divide)
  have "a / 2 powi e = a * 2 ^ Suc n"
    by (simp add: p)
  also have "\<dots> = of_int (k * 2 ^ n)"
    using k by simp
  finally have q: "a / 2 powi e = of_int (k * 2 ^ n)" .
  have r: "of_int (round_half_even (a / 2 powi e)) * 2 powi e = a"
    unfolding q round_half_even_of_int unfolding p using k by simp
  have small: "\<not> (2::rat) ^ 1024 \<le> a"
    using a(2) by simp
  note r' = r [unfolded e_def a_def]
  have "round_double x = Finite (if 0 < x then \<bar>x\<bar> else - \<bar>x\<bar>)"
    unfolding round_double_def Let_def r'
    using False small [unfolded a_def] by (simp only: if_False)
  then show ?thesis
    by (simp add: abs_if)
qed

lemma floor_log2_power: "floor_log2 (2 ^ n) = int n"
proof -
  have "\<lfloor>(2::rat) ^ n\<rfloor> = 2 ^ n"
    by (metis floor_of_int of_int_numeral of_int_power)
  moreover have "bitlen (2 ^ n) = 1 + int n"
    using bitlen_pow2 [of 1 n] by (simp add: bitlen_def floorlog_def)
  ultimately show ?thesis
    by (simp add: floor_log2_def)
qed

lemma round_double_power_overflow:
  assumes "1024 \<le> n"
  shows "round_double (2 ^ n) = PInf"
proof -
  define m where "m = n - 52"
  have n: "n = 52 + m"
    using assms by (simp add: m_def)
  have e: "max (floor_log2 (2 ^ n) - 52) (- 1074) = int m"
    by (simp add: floor_log2_power n)
  have q: "(2::rat) ^ n / 2 powi int m = of_int (2 ^ 52)"
    by (simp add: n power_add)
  have r: "of_int (round_half_even ((2::rat) ^ n / 2 powi int m)) * 2 powi int m = 2 ^ n"
    unfolding q round_half_even_of_int by (simp add: n power_add)
  have big: "(2::rat) ^ 1024 \<le> 2 ^ n"
    using assms by (intro power_increasing) simp_all
  have pos: "(0::rat) < 2 ^ n" "\<bar>(2::rat) ^ n\<bar> = 2 ^ n" "(2::rat) ^ n \<noteq> 0"
    by simp_all
  show ?thesis
    unfolding round_double_def Let_def pos(2) e r
    using big pos(1,3) by (simp only: if_True if_False)
qed

lemma to_float_int_exact:
  "\<bar>i\<bar> \<le> 10 ^ 15 \<Longrightarrow> to_float (PyInt i) = Inr (Finite (of_int i))"
proof -
  assume a: "\<bar>i\<bar> \<le> 10 ^ 15"
  have "\<bar>rat_of_int i\<bar> \<le> of_int (10 ^ 15)"
    unfolding of_int_abs [symmetric] using a by (simp only: of_int_le_iff)
  then have "round_double (of_int i) = Finite (of_int i)"
    by (intro round_double_exact) simp_all
  then show ?thesis by simp
qed

lemma fits_float_int: "\<bar>i\<bar> \<le> 10 ^ 15 \<Longrightarrow> fits_float (PyInt i)"
  by (simp add: fits_float_def to_float_int_exact del: to_float.simps)

lemma fits_float_float: "fits_float (PyFloat f)"
  by (simp add: fits_float_def)

section \<open>Automation cycles: auxiliary facts\<close>

lemma lower_living_room_light: "lower ''Living Room Light'' = ''living room light''"
  by code_simp

lemma lower_front_door_light: "lower ''Front Door Light'' = ''front door light''"
  by code_simp

lemma lower_front_door_lock: "lower ''Front Door Lock'' = ''front door lock''"
  by code_simp

lemma lower_main_thermostat: "lower ''Main Thermostat'' = ''main thermostat''"
  by code_simp

lemmas lower_names =
  lower_living_room_light lower_front_door_light lower_front_door_lock lower_main_thermostat

lemma rule1_time: "simulated_time (fst (rule1 h)) = simulated_time h"
  by (simp add: rule1_def put_device_def split: option.splits prod.splits)

lemma rule2_time: "simulated_time (fst (rule2 h)) = simulated_time h"
  by (simp add: rule2_def put_device_def split: option.splits prod.splits)

lemma rule3_time: "rule3 h = Inr (h', out) \<Longrightarrow> simulated_time h' = simulated_time h"
  by (auto simp: rule3_def put_device_def split: option.splits prod.splits device.splits if_splits)

lemma rule4_time: "rule4 h = Inr (h', out) \<Longrightarrow> simulated_time h' = simulated_time h"
  by (auto simp: rule4_def put_device_def
      split: option.splits prod.splits device.splits if_splits sum.splits)

lemma rule1_devices:
  "devices (fst (rule1 h)) k =
     (if k = ''living room light''
      then map_option
             (\<lambda>d. if hour (simulated_time h) = 23 \<and> minute (simulated_time h) = 0 \<and> dev_is_on d
                   then fst (dev_turn_off d) else d)
             (devices h k)
      else devices h k)"
  by (simp add: rule1_def get_device_def put_device_def lower_names
      split: option.splits prod.splits)

lemma rule2_devices:
  "devices (fst (rule2 h)) k =
     (if k = ''front door light''
      then map_option
             (\<lambda>d. if hour (simulated_time h) = 18 \<and> minute (simulated_time h) = 0 \<and> \<not> dev_is_on d
                   then fst (dev_turn_on d) else d)
             (devices h k)
      else devices h k)"
  by (simp add: rule2_def get_device_def put_device_def lower_names
      split: option.splits prod.splits)

lemma rule3_devices:
  "rule3 h = Inr (h', out) \<Longrightarrow>
   devices h' k =
     (if k = ''front door lock'' \<and> hour (simulated_time h) = 22 \<and> minute (simulated_time h) = 0
      then map_option (\<lambda>d. case d of Lock l \<Rightarrow> Lock (l\<lparr>is_locked := True\<rparr>) | _ \<Rightarrow> d)
             (devices h k)
      else devices h k)"
  by (auto simp: rule3_def get_device_def put_device_def lower_names lock_def
      split: option.splits prod.splits device.splits if_splits)

lemma rule4_devices:
  "rule4 h = Inr (h', out) \<Longrightarrow>
   devices h' k =
     (if k = ''main thermostat''
      then map_option
             (\<lambda>d. case d of Thermostat t \<Rightarrow> if is_on t then Thermostat (drifted t) else d
                   | _ \<Rightarrow> d)
             (devices h k)
      else devices h k)"
  by (auto simp: rule4_def get_device_def put_device_def lower_names drifted_def
      split: option.splits prod.splits device.splits if_splits sum.splits)

lemma rule3_returns:
  "(case devices h ''front door lock'' of None \<Rightarrow> True | Some (Lock l) \<Rightarrow> True | Some _ \<Rightarrow> False)
   \<Longrightarrow> \<exists>h' out. rule3 h = Inr (h', out)"
  by (auto simp: rule3_def get_device_def lower_names
      split: option.splits prod.splits device.splits if_splits)

lemma drift_returns:
  assumes "fits_float (current_temp t)"
  shows "\<exists>t' out. drift t = Inr (t', out)"
proof -
  obtain f where "to_float (current_temp t) = Inr f"
    using assms by (auto simp: fits_float_def split: sum.splits)
  then show ?thesis
    by (simp add: drift_def num_add_def num_sub_def Let_def case_prod_beta)
qed

lemma rule4_returns:
  "(case devices h ''main thermostat'' of
      None \<Rightarrow> True | Some (Thermostat t) \<Rightarrow> fits_float (current_temp t) | Some _ \<Rightarrow> False)
   \<Longrightarrow> \<exists>h' out. rule4 h = Inr (h', out)"
  using drift_returns
  by (fastforce simp: rule4_def get_device_def lower_names
      split: option.splits device.splits if_splits)


lemma run_automation_rules_Inr:
  "run_automation_rules h = Inr (h', out) \<Longrightarrow>
   \<exists>h3 o3 o4. rule3 (fst (rule2 (fst (rule1 h)))) = Inr (h3, o3) \<and> rule4 h3 = Inr (h', o4)"
  by (auto simp: run_automation_rules_def split: prod.splits sum.splits)

lemma run_automation_rules_time:
  "run_automation_rules h = Inr (h', out) \<Longrightarrow> simulated_time h' = simulated_time h"
proof -
  assume "run_automation_rules h = Inr (h', out)"
  then obtain h3 o3 o4 where
    r3: "rule3 (fst (rule2 (fst (rule1 h)))) = Inr (h3, o3)" and r4: "rule4 h3 = Inr (h', o4)"
    using run_automation_rules_Inr by blast
  show ?thesis
    using rule3_time [OF r3] rule4_time [OF r4] by (simp add: rule1_time rule2_time)
qed

lemma run_automation_rules_devices:
  assumes "run_automation_rules h = Inr (h', out)"
  shows "devices h' k =
     (if k = ''living room light'' then
        map_option
          (\<lambda>d. if hour (simulated_time h) = 23 \<and> minute (simulated_time h) = 0 \<and> dev_is_on d
                then fst (dev_turn_off d) else d)
          (devices h k)
      else if k = ''front door light'' then
        map_option
          (\<lambda>d. if hour (simulated_time h) = 18 \<and> minute (simulated_time h) = 0 \<and> \<not> dev_is_on d
                then fst (dev_turn_on d) else d)
          (devices h k)
      else if k = ''front door lock'' \<and> hour (simulated_time h) = 22
          \<and> minute (simulated_time h) = 0 then
        map_option (\<lambda>d. case d of Lock l \<Rightarrow> Lock (l\<lparr>is_locked := True\<rparr>) | _ \<Rightarrow> d)
          (devices h k)
      else if k = ''main thermostat'' then
        map_option
          (\<lambda>d. case d of Thermostat t \<Rightarrow> if is_on t then Thermostat (drifted t) else d
                | _ \<Rightarrow> d)
          (devices h k)
      else devices h k)"
proof -
  obtain h3 o3 o4 where
    r3: "rule3 (fst (rule2 (fst (rule1 h)))) = Inr (h3, o3)" and r4: "rule4 h3 = Inr (h', o4)"
    using run_automation_rules_Inr [OF assms] by blast
  show ?thesis
    by (simp add: rule4_devices [OF r4] rule3_devices [OF r3] rule2_devices rule1_devices
        rule1_time rule2_time)
qed

lemma run_automation_rules_returns:
  assumes "expected_classes h"
  shows "\<exists>h' out. run_automation_rules h = Inr (h', out)"
proof -
  let ?h2 = "fst (rule2 (fst (rule1 h)))"
  have "devices ?h2 ''front door lock'' = devices h ''front door lock''"
    by (simp add: rule2_devices rule1_devices)
  with assms obtain h3 o3 where r3: "rule3 ?h2 = Inr (h3, o3)"
    using rule3_returns [of ?h2]
    by (auto simp: expected_classes_def get_device_def lower_names)
  have "devices h3 ''main thermostat'' = devices h ''main thermostat''"
    by (simp add: rule3_devices [OF r3] rule2_devices rule1_devices)
  with assms obtain h4 o4 where r4: "rule4 h3 = Inr (h4, o4)"
    using rule4_returns [of h3]
    by (auto simp: expected_classes_def get_device_def lower_names)
  show ?thesis
    using r3 r4 by (auto simp: run_automation_rules_def split: prod.splits)
qed

section \<open>The simulated clock\<close>

lemma run_automation_rules_banner:
  "run_automation_rules h = Inr (h', out) \<Longrightarrow> M_running_rules \<in> set out"
  by (auto simp: run_automation_rules_def split: prod.splits sum.splits)

lemma run_automation_rules_empty:
  "devices h = Map.empty \<Longrightarrow>
   run_automation_rules h = Inr (h, [M_running_rules, M_rules_complete])"
  by (simp add: run_automation_rules_def rule1_def rule2_def rule3_def rule4_def get_device_def)

lemma set_simulated_time_out_of_range:
  "c_int_ok hr \<Longrightarrow> c_int_ok mi \<Longrightarrow> hr < 0 \<or> hr > 23 \<or> mi < 0 \<or> mi > 59 \<Longrightarrow>
     set_simulated_time h now hr mi = Inr (h, [M_invalid_hour_or_minute])"
  by (auto simp: set_simulated_time_def replace_time_def)

lemma set_simulated_time_banner:
  assumes "set_simulated_time h now hr mi = Inr (h', out)" "M_running_rules \<in> set out"
  shows "0 \<le> hr \<and> hr \<le> 23 \<and> 0 \<le> mi \<and> mi \<le> 59"
proof (rule ccontr)
  assume "\<not> ?thesis"
  then have "replace_time now hr mi = Inl OverflowError \<or> replace_time now hr mi = Inl ValueError"
    by (auto simp: replace_time_def)
  with assms show False
    by (auto simp: set_simulated_time_def)
qed

lemma advance_time_Inr:
  assumes "advance_time h m = Inr (h', out)"
  shows "add_minutes (simulated_time h) m = Inr (simulated_time h') \<and> M_running_rules \<in> set out"
proof -
  from assms obtain st out' where st: "add_minutes (simulated_time h) m = Inr st"
    and run: "run_automation_rules (h\<lparr>simulated_time := st\<rparr>) = Inr (h', out')"
    and out: "out = M_time_advanced m (hour st) (minute st) # out'"
    by (auto simp: advance_time_def Let_def split: sum.splits prod.splits)
  from run_automation_rules_time [OF run] have "simulated_time h' = st" by simp
  with st run_automation_rules_banner [OF run] out show ?thesis by simp
qed

text \<open>
  C7.  \<^verbatim>\<open>set_simulated_time(25, 0)\<close> prints the invalid-time line and nothing else and
  returns the hub as it was.  \<^verbatim>\<open>set_simulated_time(2147483648, 0)\<close> does not: the hour
  does not fit a C \<^verbatim>\<open>int\<close>, \<^verbatim>\<open>replace\<close> raises \<^verbatim>\<open>OverflowError\<close>, and the
  \<^verbatim>\<open>except ValueError\<close> clause lets it through.
\<close>

theorem set_simulated_time_overflow:
  "set_simulated_time h now 25 0 = Inr (h, [M_invalid_hour_or_minute])
   \<and> set_simulated_time h now 2147483648 0 = Inl OverflowError"
  by (simp add: set_simulated_time_def replace_time_def c_int_ok_def)

lemma expected_classes_main_hub: "expected_classes (main_hub now)"
  by (simp add: expected_classes_def main_hub_def get_device_def add_device_def SmartHomeHub_def
      SmartLight_def SmartThermostat_def SmartDoorLock_def lower_names fits_float_int)

text \<open>
  C6, as stated, fails: the date comes from the wall clock, not from the simulated clock.
  A hub created on day 739923 and advanced by 1440 minutes is on day 739924; setting the
  time to 12:00 while the wall clock still reads day 739923 puts it back on day 739923.
\<close>

theorem set_simulated_time_date_counterexample:
  "advance_time (fst (SmartHomeHub example_now)) 1440
     = Inr (\<lparr>devices = Map.empty,
             simulated_time =
               \<lparr>ordinal = 739924, hour = 10, minute = 30, second = 0, microsecond = 0\<rparr>\<rparr>,
            [M_time_advanced 1440 10 30, M_running_rules, M_rules_complete])
   \<and> set_simulated_time
       \<lparr>devices = Map.empty,
        simulated_time =
          \<lparr>ordinal = 739924, hour = 10, minute = 30, second = 0, microsecond = 0\<rparr>\<rparr>
       example_now 12 0
     = Inr (\<lparr>devices = Map.empty,
             simulated_time =
               \<lparr>ordinal = 739923, hour = 12, minute = 0, second = 0, microsecond = 0\<rparr>\<rparr>,
            [M_time_set 12 0, M_running_rules, M_rules_complete])"
  by (simp add: advance_time_def add_minutes_def max_ordinal_def set_simulated_time_def
      replace_time_def c_int_ok_def SmartHomeHub_def example_now_def
      run_automation_rules_empty)

text \<open>
  C6, amended.  For an hour in 0..23 and a minute in 0..59, on a hub whose lock and
  thermostat rules find devices of their class (and a thermostat temperature that is a
  float or converts to one), \<^verbatim>\<open>set_simulated_time\<close> returns and leaves the simulated
  clock at the wall clock's reading \<open>now\<close> with the hour and minute replaced and the
  seconds and microseconds zero: the date is the wall clock's.
\<close>

theorem set_simulated_time_valid:
  assumes "0 \<le> hr" "hr \<le> 23" "0 \<le> mi" "mi \<le> 59" "expected_classes h"
  shows "clock_after (set_simulated_time h now hr mi)
           = Some (now\<lparr>hour := hr, minute := mi, second := 0, microsecond := 0\<rparr>)"
proof -
  let ?t = "now\<lparr>hour := hr, minute := mi, second := 0, microsecond := 0\<rparr>"
  have "expected_classes (h\<lparr>simulated_time := ?t\<rparr>)"
    using assms(5) by (simp add: expected_classes_def get_device_def)
  then obtain h' out where run: "run_automation_rules (h\<lparr>simulated_time := ?t\<rparr>) = Inr (h', out)"
    using run_automation_rules_returns by blast
  from run_automation_rules_time [OF run] have "simulated_time h' = ?t" by simp
  with run assms(1-4) show ?thesis
    by (simp add: clock_after_def set_simulated_time_def replace_time_def c_int_ok_def)
qed

theorem set_simulated_time_valid_witness:
  "clock_after (set_simulated_time (main_hub example_now)
      \<lparr>ordinal = 739925, hour = 9, minute = 15, second = 42, microsecond = 7\<rparr> 23 0)
     = Some \<lparr>ordinal = 739925, hour = 23, minute = 0, second = 0, microsecond = 0\<rparr>"
  using set_simulated_time_valid [of 23 0 "main_hub example_now"
      "\<lparr>ordinal = 739925, hour = 9, minute = 15, second = 42, microsecond = 7\<rparr>"]
    expected_classes_main_hub [of example_now]
  by simp

section \<open>Thermostats\<close>

lemma thermo_inv_update_mode: "thermo_inv (fst (update_mode t))"
  by (simp add: thermo_inv_def update_mode_def dead_band_def)

lemma thermo_inv_turn_on: "thermo_inv (fst (thermostat_turn_on t))"
  by (simp add: thermostat_turn_on_def thermo_inv_update_mode case_prod_beta)

lemma thermo_inv_turn_off: "thermo_inv (fst (thermostat_turn_off t))"
  by (simp add: thermostat_turn_off_def turn_off_def thermo_inv_def dead_band_def)

lemma thermo_inv_set_target_temp:
  "thermo_inv t \<Longrightarrow> thermo_inv (fst (set_target_temp t temp))"
  by (simp add: set_target_temp_def Let_def thermo_inv_update_mode case_prod_beta)

lemma thermo_inv_drift: "drift t = Inr (t', out) \<Longrightarrow> thermo_inv t'"
  using thermo_inv_update_mode
  by (auto simp: drift_def Let_def case_prod_beta split: sum.splits if_splits)

lemma thermo_inv_drifted: "thermo_inv t \<Longrightarrow> thermo_inv (drifted t)"
  using thermo_inv_drift [of t] by (auto simp: drifted_def split: sum.splits)

lemma thermo_inv_init: "thermo_inv (SmartThermostat n c t)"
  by (simp add: SmartThermostat_def thermo_inv_def dead_band_def)

lemma dev_turn_on_thermo: "fst (dev_turn_on d) = Thermostat t' \<Longrightarrow> thermo_inv t'"
  using thermo_inv_turn_on by (cases d) (auto simp: case_prod_beta)

lemma dev_turn_off_thermo: "fst (dev_turn_off d) = Thermostat t' \<Longrightarrow> thermo_inv t'"
  using thermo_inv_turn_off by (cases d) (auto simp: case_prod_beta)

lemma all_thermo_inv_put:
  "all_thermo_inv h \<Longrightarrow> (\<And>t. d = Thermostat t \<Longrightarrow> thermo_inv t) \<Longrightarrow>
   all_thermo_inv (put_device h n d)"
  by (auto simp: all_thermo_inv_def put_device_def)

lemma all_thermo_inv_add:
  "all_thermo_inv h \<Longrightarrow> (\<And>t. d = Thermostat t \<Longrightarrow> thermo_inv t) \<Longrightarrow>
   all_thermo_inv (fst (add_device h d))"
  by (auto simp: all_thermo_inv_def add_device_def)

lemma all_thermo_inv_time:
  "all_thermo_inv (h\<lparr>simulated_time := st\<rparr>) = all_thermo_inv h"
  by (simp add: all_thermo_inv_def)

lemma all_thermo_inv_get:
  "all_thermo_inv h \<Longrightarrow> get_device h n = Some (Thermostat t) \<Longrightarrow> thermo_inv t"
  by (auto simp: all_thermo_inv_def get_device_def)

lemma lock_case_thermo:
  "(case d of Lock l \<Rightarrow> Lock (l\<lparr>is_locked := True\<rparr>) | _ \<Rightarrow> d) = Thermostat t'
   \<longleftrightarrow> d = Thermostat t'"
  by (cases d) auto

lemma drift_case_thermo:
  "(case d of Thermostat t \<Rightarrow> if is_on t then Thermostat (drifted t) else d | _ \<Rightarrow> d)
     = Thermostat t'
   \<Longrightarrow> d = Thermostat t' \<or> (\<exists>t. d = Thermostat t \<and> t' = drifted t)"
  by (cases d) (auto split: if_splits)

lemma all_thermo_inv_run:
  assumes "all_thermo_inv h" "run_automation_rules h = Inr (h', out)"
  shows "all_thermo_inv h'"
  unfolding all_thermo_inv_def
proof (intro allI impI)
  fix k t'
  assume d: "devices h' k = Some (Thermostat t')"
  have inv: "\<And>k t. devices h k = Some (Thermostat t) \<Longrightarrow> thermo_inv t"
    using assms(1) by (auto simp: all_thermo_inv_def)
  from d obtain d0 where d0: "devices h k = Some d0"
    and alt: "d0 = Thermostat t' \<or> fst (dev_turn_off d0) = Thermostat t'
      \<or> fst (dev_turn_on d0) = Thermostat t' \<or> (\<exists>t. d0 = Thermostat t \<and> t' = drifted t)"
    unfolding run_automation_rules_devices [OF assms(2)]
    by (auto simp: lock_case_thermo split: if_splits dest: drift_case_thermo)
  from alt show "thermo_inv t'"
    using inv [of k] d0 dev_turn_on_thermo dev_turn_off_thermo thermo_inv_drifted by auto
qed

lemma all_thermo_inv_exec:
  assumes "all_thermo_inv h" "exec h c = Inr (h', out)"
  shows "all_thermo_inv h'"
proof (cases c)
  case (New_device n)
  with assms show ?thesis
    using all_thermo_inv_add [of h "Plain (SmartDevice n)"] by (auto simp: prod_eq_iff)
next
  case (New_light n b)
  with assms show ?thesis
    using all_thermo_inv_add [of h "Light (SmartLight n b)"] by (auto simp: prod_eq_iff)
next
  case (New_thermostat n cur tgt)
  with assms show ?thesis
    using all_thermo_inv_add [of h "Thermostat (SmartThermostat n cur tgt)"]
    by (auto simp: thermo_inv_init prod_eq_iff)
next
  case (New_lock n l)
  with assms show ?thesis
    using all_thermo_inv_add [of h "Lock (SmartDoorLock n l)"] by (auto simp: prod_eq_iff)
next
  case (Turn_on n)
  with assms obtain d where "h' = put_device h n (fst (dev_turn_on d))"
    by (auto simp: case_prod_beta split: option.splits)
  with assms(1) show ?thesis
    by (auto intro!: all_thermo_inv_put dest: dev_turn_on_thermo)
next
  case (Turn_off n)
  with assms obtain d where "h' = put_device h n (fst (dev_turn_off d))"
    by (auto simp: case_prod_beta split: option.splits)
  with assms(1) show ?thesis
    by (auto intro!: all_thermo_inv_put dest: dev_turn_off_thermo)
next
  case (Set_brightness n level)
  with assms obtain l where "h' = put_device h n (Light l)"
    by (auto simp: case_prod_beta split: option.splits device.splits)
  with assms(1) show ?thesis
    by (auto intro!: all_thermo_inv_put)
next
  case (Set_target_temp n temp)
  with assms obtain t where "get_device h n = Some (Thermostat t)"
    and "h' = put_device h n (Thermostat (fst (set_target_temp t temp)))"
    by (auto simp: case_prod_beta split: option.splits device.splits)
  with assms(1) show ?thesis
    by (auto intro!: all_thermo_inv_put thermo_inv_set_target_temp dest: all_thermo_inv_get)
next
  case (Lock_door n)
  with assms obtain l where "h' = put_device h n (Lock l)"
    by (auto simp: case_prod_beta split: option.splits device.splits)
  with assms(1) show ?thesis
    by (auto intro!: all_thermo_inv_put)
next
  case (Unlock_door n)
  with assms obtain l where "h' = put_device h n (Lock l)"
    by (auto simp: case_prod_beta split: option.splits device.splits)
  with assms(1) show ?thesis
    by (auto intro!: all_thermo_inv_put)
next
  case (Advance_time m)
  with assms obtain st out' where
    "run_automation_rules (h\<lparr>simulated_time := st\<rparr>) = Inr (h', out')"
    by (auto simp: advance_time_def Let_def split: sum.splits prod.splits)
  with assms(1) show ?thesis
    using all_thermo_inv_run [of "h\<lparr>simulated_time := st\<rparr>" h' out']
    by (simp add: all_thermo_inv_time)
next
  case (Set_time now hr mi)
  with assms consider "h' = h"
    | st out' where "run_automation_rules (h\<lparr>simulated_time := st\<rparr>) = Inr (h', out')"
    by (auto simp: set_simulated_time_def Let_def split: sum.splits prod.splits if_splits)
  then show ?thesis
  proof cases
    case 1
    with assms(1) show ?thesis by simp
  next
    case 2
    with assms(1) show ?thesis
      using all_thermo_inv_run [of "h\<lparr>simulated_time := st\<rparr>" h' out']
      by (simp add: all_thermo_inv_time)
  qed
next
  case Run_automation
  with assms show ?thesis by (auto dest: all_thermo_inv_run)
qed

lemma all_thermo_inv_exec_all:
  "all_thermo_inv h \<Longrightarrow> exec_all h cs = Inr (h', out) \<Longrightarrow> all_thermo_inv h'"
proof (induction cs arbitrary: h out)
  case Nil
  then show ?case by simp
next
  case (Cons c cs)
  then show ?case
    by (auto split: sum.splits prod.splits dest: all_thermo_inv_exec)
qed

lemma all_thermo_inv_init: "all_thermo_inv (fst (SmartHomeHub now))"
  by (simp add: all_thermo_inv_def SmartHomeHub_def)

text \<open>
  C2.  On a hub created empty, after any sequence of public operations that returns
  (devices constructed and added, \<^verbatim>\<open>turn_on\<close>, \<^verbatim>\<open>turn_off\<close>, \<^verbatim>\<open>set_brightness\<close>,
  \<^verbatim>\<open>set_target_temp\<close>, \<^verbatim>\<open>lock\<close>, \<^verbatim>\<open>unlock\<close>, \<^verbatim>\<open>advance_time\<close>,
  \<^verbatim>\<open>set_simulated_time\<close>, \<^verbatim>\<open>run_automation_rules\<close>), the mode of every registered
  thermostat is the dead-band function of its power flag, current and target temperature.
  And \<^verbatim>\<open>turn_off()\<close> on any thermostat leaves it off with mode Off, whatever its
  temperatures, which it does not change.
\<close>

theorem mode_is_dead_band:
  "(exec_all (fst (SmartHomeHub now)) cmds = Inr (h, out)
      \<and> get_device h n = Some (Thermostat t)
    \<longrightarrow> mode t = dead_band (is_on t) (current_temp t) (target_temp t))
   \<and> mode (fst (thermostat_turn_off t0)) = Off
   \<and> \<not> is_on (fst (thermostat_turn_off t0))
   \<and> current_temp (fst (thermostat_turn_off t0)) = current_temp t0
   \<and> target_temp (fst (thermostat_turn_off t0)) = target_temp t0"
proof -
  have "thermo_inv t"
    if "exec_all (fst (SmartHomeHub now)) cmds = Inr (h, out)"
      and "get_device h n = Some (Thermostat t)"
    using all_thermo_inv_get [OF all_thermo_inv_exec_all [OF all_thermo_inv_init that(1)] that(2)] .
  then show ?thesis
    by (simp add: thermo_inv_def thermostat_turn_off_def turn_off_def)
qed

theorem mode_is_dead_band_witness:
  "exec_all (fst (SmartHomeHub example_now))
     [New_thermostat ''Main Thermostat'' (PyInt 25) 22, Turn_on ''Main Thermostat'',
      Run_automation, Set_target_temp ''Main Thermostat'' 26]
   = Inr (\<lparr>devices =
             [''main thermostat'' \<mapsto>
                Thermostat \<lparr>name = ''Main Thermostat'', is_on = True, current_temp = PyFloat (Finite (49 / 2)),
                            target_temp = 26, mode = Heating\<rparr>],
           simulated_time =
             \<lparr>ordinal = 739923, hour = 10, minute = 30, second = 0, microsecond = 0\<rparr>\<rparr>,
          [M_added_device ''Main Thermostat'',
           M_turned_on ''Main Thermostat'', M_mode_cooling ''Main Thermostat'' (PyInt 25) 22,
           M_running_rules, M_temp_drop ''Main Thermostat'' (PyFloat (Finite (49 / 2))),
           M_mode_cooling ''Main Thermostat'' (PyFloat (Finite (49 / 2))) 22, M_rules_complete,
           M_target_set ''Main Thermostat'' 26, M_mode_heating ''Main Thermostat'' (PyFloat (Finite (49 / 2))) 26])
   \<and> Heating = dead_band True (PyFloat (Finite (49 / 2))) 26"
  using mode_is_dead_band [of example_now
      "[New_thermostat ''Main Thermostat'' (PyInt 25) 22, Turn_on ''Main Thermostat'',
        Run_automation, Set_target_temp ''Main Thermostat'' 26]"
      "\<lparr>devices =
             [''main thermostat'' \<mapsto>
                Thermostat \<lparr>name = ''Main Thermostat'', is_on = True, current_temp = PyFloat (Finite (49 / 2)),
                            target_temp = 26, mode = Heating\<rparr>],
           simulated_time =
             \<lparr>ordinal = 739923, hour = 10, minute = 30, second = 0, microsecond = 0\<rparr>\<rparr>"
      "[M_added_device ''Main Thermostat'',
           M_turned_on ''Main Thermostat'', M_mode_cooling ''Main Thermostat'' (PyInt 25) 22,
           M_running_rules, M_temp_drop ''Main Thermostat'' (PyFloat (Finite (49 / 2))),
           M_mode_cooling ''Main Thermostat'' (PyFloat (Finite (49 / 2))) 22, M_rules_complete,
           M_target_set ''Main Thermostat'' 26, M_mode_heating ''Main Thermostat'' (PyFloat (Finite (49 / 2))) 26]"
      "''Main Thermostat''"
      "\<lparr>name = ''Main Thermostat'', is_on = True, current_temp = PyFloat (Finite (49 / 2)),
                            target_temp = 26, mode = Heating\<rparr>"]
  by (simp add: SmartHomeHub_def example_now_def add_device_def SmartThermostat_def
      get_device_def put_device_def lower_names thermostat_turn_on_def turn_on_def
      update_mode_def run_automation_rules_def rule1_def rule2_def rule3_def rule4_def
      drift_def num_sub_def round_double_exact set_target_temp_def Let_def)

section \<open>Time-triggered rules\<close>

lemma evening_hub_facts:
  "expected_classes (evening_hub hr mi)"
  "get_device (evening_hub hr mi) ''Living Room Light''
     = Some (Light \<lparr>name = ''Living Room Light'', is_on = True, brightness = 50\<rparr>)"
  "get_device (evening_hub hr mi) ''Front Door Light''
     = Some (Light \<lparr>name = ''Front Door Light'', is_on = False, brightness = 0\<rparr>)"
  "get_device (evening_hub hr mi) ''Front Door Lock''
     = Some (Lock \<lparr>name = ''Front Door Lock'', is_on = True, is_locked = False\<rparr>)"
  "get_device (evening_hub hr mi) ''Main Thermostat''
     = Some (Thermostat \<lparr>name = ''Main Thermostat'', is_on = True, current_temp = PyInt 25,
                       target_temp = 22, mode = Cooling\<rparr>)"
  "simulated_time (evening_hub hr mi)
     = \<lparr>ordinal = 739923, hour = hr, minute = mi, second = 0, microsecond = 0\<rparr>"
  by (simp_all add: evening_hub_def expected_classes_def get_device_def lower_names
      fits_float_int)

lemma update_mode_current_temp: "current_temp (fst (update_mode t)) = current_temp t"
  by (simp add: update_mode_def)

lemma fits_float_drifted:
  "fits_float (current_temp t) \<Longrightarrow> fits_float (current_temp (drifted t))"
  by (auto simp: drifted_def drift_def num_add_def num_sub_def Let_def case_prod_beta
      update_mode_current_temp fits_float_float split: sum.splits if_splits)

lemma expected_classes_run:
  assumes "expected_classes h" "run_automation_rules h = Inr (h', out)"
  shows "expected_classes h'"
  using assms(1) fits_float_drifted
  by (auto simp: expected_classes_def get_device_def lower_names
      run_automation_rules_devices [OF assms(2)] split: option.splits device.splits)

lemma expected_classes_time:
  "expected_classes (h\<lparr>simulated_time := st\<rparr>) = expected_classes h"
  by (simp add: expected_classes_def get_device_def)

lemma set_simulated_time_returns:
  assumes "0 \<le> hr" "hr \<le> 23" "0 \<le> mi" "mi \<le> 59" "expected_classes h"
  shows "\<exists>h' out. set_simulated_time h now hr mi = Inr (h', M_time_set hr mi # out)
     \<and> run_automation_rules
         (h\<lparr>simulated_time := now\<lparr>hour := hr, minute := mi, second := 0, microsecond := 0\<rparr>\<rparr>)
       = Inr (h', out)
     \<and> expected_classes h'
     \<and> simulated_time h' = now\<lparr>hour := hr, minute := mi, second := 0, microsecond := 0\<rparr>"
proof -
  let ?h = "h\<lparr>simulated_time := now\<lparr>hour := hr, minute := mi, second := 0, microsecond := 0\<rparr>\<rparr>"
  have ec: "expected_classes ?h"
    using assms(5) by (simp add: expected_classes_time)
  then obtain h' out where run: "run_automation_rules ?h = Inr (h', out)"
    using run_automation_rules_returns by blast
  have "set_simulated_time h now hr mi = Inr (h', M_time_set hr mi # out)"
    using run assms(1-4) by (simp add: set_simulated_time_def replace_time_def c_int_ok_def)
  with run expected_classes_run [OF ec run] run_automation_rules_time [OF run]
  show ?thesis by simp
qed

lemma run_living_room_light:
  assumes "run_automation_rules h = Inr (h', out)"
    and "get_device h ''Living Room Light'' = Some (Light l)" and "is_on l"
  shows "get_device h' ''Living Room Light'' =
     Some (Light (if hour (simulated_time h) = 23 \<and> minute (simulated_time h) = 0
                  then l\<lparr>is_on := False\<rparr> else l))"
  using assms(2,3)
  by (simp add: get_device_def lower_names run_automation_rules_devices [OF assms(1)]
      turn_off_def)

lemma run_front_door_light:
  assumes "run_automation_rules h = Inr (h', out)"
    and "get_device h ''Front Door Light'' = Some (Light l)" and "\<not> is_on l"
  shows "get_device h' ''Front Door Light'' =
     Some (Light (if hour (simulated_time h) = 18 \<and> minute (simulated_time h) = 0
                  then l\<lparr>is_on := True\<rparr> else l))"
  using assms(2,3)
  by (simp add: get_device_def lower_names run_automation_rules_devices [OF assms(1)]
      turn_on_def)

lemma run_front_door_lock:
  assumes "run_automation_rules h = Inr (h', out)"
    and "get_device h ''Front Door Lock'' = Some (Lock l)" and "\<not> is_locked l"
  shows "get_device h' ''Front Door Lock'' =
     Some (Lock (if hour (simulated_time h) = 22 \<and> minute (simulated_time h) = 0
                 then l\<lparr>is_locked := True\<rparr> else l))"
  using assms(2,3)
  by (simp add: get_device_def lower_names run_automation_rules_devices [OF assms(1)])

lemma set_time_living_room_light:
  assumes "0 \<le> hr" "hr \<le> 23" "0 \<le> mi" "mi \<le> 59" "expected_classes h"
    and "get_device h ''Living Room Light'' = Some (Light l)" and "is_on l"
  shows "\<exists>h' out. set_simulated_time h now hr mi = Inr (h', out) \<and> expected_classes h'
     \<and> get_device h' ''Living Room Light'' =
         Some (Light (if hr = 23 \<and> mi = 0 then l\<lparr>is_on := False\<rparr> else l))"
proof -
  let ?h = "h\<lparr>simulated_time := now\<lparr>hour := hr, minute := mi, second := 0, microsecond := 0\<rparr>\<rparr>"
  obtain h' out where s: "set_simulated_time h now hr mi = Inr (h', M_time_set hr mi # out)"
    and run: "run_automation_rules ?h = Inr (h', out)" and ec: "expected_classes h'"
    using set_simulated_time_returns [OF assms(1-5)] by blast
  have "get_device ?h ''Living Room Light'' = Some (Light l)"
    using assms(6) by (simp add: get_device_def)
  from run_living_room_light [OF run this assms(7)] s ec show ?thesis by simp
qed

text \<open>
  C5.  On a hub whose lock and thermostat rules find devices of their class (and a
  thermostat temperature that is a float or converts to one), an automation cycle
  returns, and: a living room light that is on is turned off when the clock reads
  exactly 23:00 and is left as it is at any other time; a front door light that is off is
  turned on exactly at 18:00 and left as it is otherwise; an unlocked front door lock is
  locked exactly at 22:00 and left as it is otherwise.  In particular, setting the time to
  22:59 and then to 23:01 leaves the living room light on, and setting it to 23:00 turns
  the light off.
\<close>

theorem time_rules_exact:
  assumes "expected_classes h"
  shows "(\<exists>h' out. run_automation_rules h = Inr (h', out)
      \<and> (get_device h ''Living Room Light'' = Some (Light l) \<and> is_on l \<longrightarrow>
           get_device h' ''Living Room Light'' =
             Some (Light (if hour (simulated_time h) = 23 \<and> minute (simulated_time h) = 0
                          then l\<lparr>is_on := False\<rparr> else l)))
      \<and> (get_device h ''Front Door Light'' = Some (Light fl) \<and> \<not> is_on fl \<longrightarrow>
           get_device h' ''Front Door Light'' =
             Some (Light (if hour (simulated_time h) = 18 \<and> minute (simulated_time h) = 0
                          then fl\<lparr>is_on := True\<rparr> else fl)))
      \<and> (get_device h ''Front Door Lock'' = Some (Lock dl) \<and> \<not> is_locked dl \<longrightarrow>
           get_device h' ''Front Door Lock'' =
             Some (Lock (if hour (simulated_time h) = 22 \<and> minute (simulated_time h) = 0
                         then dl\<lparr>is_locked := True\<rparr> else dl))))
   \<and> (get_device h ''Living Room Light'' = Some (Light l) \<and> is_on l \<longrightarrow>
        (\<exists>h1 o1 h2 o2 h3 o3.
            set_simulated_time h now1 22 59 = Inr (h1, o1)
          \<and> get_device h1 ''Living Room Light'' = Some (Light l)
          \<and> set_simulated_time h1 now2 23 1 = Inr (h2, o2)
          \<and> get_device h2 ''Living Room Light'' = Some (Light l)
          \<and> set_simulated_time h now3 23 0 = Inr (h3, o3)
          \<and> get_device h3 ''Living Room Light'' = Some (Light (l\<lparr>is_on := False\<rparr>))))"
proof (rule conjI)
  obtain h' out where run: "run_automation_rules h = Inr (h', out)"
    using run_automation_rules_returns [OF assms] by blast
  show "\<exists>h' out. run_automation_rules h = Inr (h', out)
      \<and> (get_device h ''Living Room Light'' = Some (Light l) \<and> is_on l \<longrightarrow>
           get_device h' ''Living Room Light'' =
             Some (Light (if hour (simulated_time h) = 23 \<and> minute (simulated_time h) = 0
                          then l\<lparr>is_on := False\<rparr> else l)))
      \<and> (get_device h ''Front Door Light'' = Some (Light fl) \<and> \<not> is_on fl \<longrightarrow>
           get_device h' ''Front Door Light'' =
             Some (Light (if hour (simulated_time h) = 18 \<and> minute (simulated_time h) = 0
                          then fl\<lparr>is_on := True\<rparr> else fl)))
      \<and> (get_device h ''Front Door Lock'' = Some (Lock dl) \<and> \<not> is_locked dl \<longrightarrow>
           get_device h' ''Front Door Lock'' =
             Some (Lock (if hour (simulated_time h) = 22 \<and> minute (simulated_time h) = 0
                         then dl\<lparr>is_locked := True\<rparr> else dl)))"
    using run run_living_room_light [OF run, of l] run_front_door_light [OF run, of fl]
      run_front_door_lock [OF run, of dl]
    by blast
next
  show "get_device h ''Living Room Light'' = Some (Light l) \<and> is_on l \<longrightarrow>
        (\<exists>h1 o1 h2 o2 h3 o3.
            set_simulated_time h now1 22 59 = Inr (h1, o1)
          \<and> get_device h1 ''Living Room Light'' = Some (Light l)
          \<and> set_simulated_time h1 now2 23 1 = Inr (h2, o2)
          \<and> get_device h2 ''Living Room Light'' = Some (Light l)
          \<and> set_simulated_time h now3 23 0 = Inr (h3, o3)
          \<and> get_device h3 ''Living Room Light'' = Some (Light (l\<lparr>is_on := False\<rparr>)))"
  proof
    assume a: "get_device h ''Living Room Light'' = Some (Light l) \<and> is_on l"
    then have g: "get_device h ''Living Room Light'' = Some (Light l)" and on: "is_on l"
      by simp_all
    obtain h1 o1 where s1: "set_simulated_time h now1 22 59 = Inr (h1, o1)"
      and ec1: "expected_classes h1" and g1: "get_device h1 ''Living Room Light'' = Some (Light l)"
      using set_time_living_room_light [of 22 59 h l now1] assms g on by auto
    obtain h2 o2 where s2: "set_simulated_time h1 now2 23 1 = Inr (h2, o2)"
      and g2: "get_device h2 ''Living Room Light'' = Some (Light l)"
      using set_time_living_room_light [of 23 1 h1 l now2] ec1 g1 on by auto
    obtain h3 o3 where s3: "set_simulated_time h now3 23 0 = Inr (h3, o3)"
      and g3: "get_device h3 ''Living Room Light'' = Some (Light (l\<lparr>is_on := False\<rparr>))"
      using set_time_living_room_light [of 23 0 h l now3] assms g on by auto
    from s1 g1 s2 g2 s3 g3 show "\<exists>h1 o1 h2 o2 h3 o3.
            set_simulated_time h now1 22 59 = Inr (h1, o1)
          \<and> get_device h1 ''Living Room Light'' = Some (Light l)
          \<and> set_simulated_time h1 now2 23 1 = Inr (h2, o2)
          \<and> get_device h2 ''Living Room Light'' = Some (Light l)
          \<and> set_simulated_time h now3 23 0 = Inr (h3, o3)
          \<and> get_device h3 ''Living Room Light'' = Some (Light (l\<lparr>is_on := False\<rparr>))"
      by blast
  qed
qed

theorem time_rules_exact_witness:
  "(\<exists>h' out. run_automation_rules (evening_hub 23 0) = Inr (h', out)
      \<and> get_device h' ''Living Room Light''
          = Some (Light \<lparr>name = ''Living Room Light'', is_on = False, brightness = 50\<rparr>)
      \<and> get_device h' ''Front Door Light''
          = Some (Light \<lparr>name = ''Front Door Light'', is_on = False, brightness = 0\<rparr>)
      \<and> get_device h' ''Front Door Lock''
          = Some (Lock \<lparr>name = ''Front Door Lock'', is_on = True, is_locked = False\<rparr>))
   \<and> (\<exists>h' out. run_automation_rules (evening_hub 18 0) = Inr (h', out)
      \<and> get_device h' ''Living Room Light''
          = Some (Light \<lparr>name = ''Living Room Light'', is_on = True, brightness = 50\<rparr>)
      \<and> get_device h' ''Front Door Light''
          = Some (Light \<lparr>name = ''Front Door Light'', is_on = True, brightness = 0\<rparr>)
      \<and> get_device h' ''Front Door Lock''
          = Some (Lock \<lparr>name = ''Front Door Lock'', is_on = True, is_locked = False\<rparr>))
   \<and> (\<exists>h' out. run_automation_rules (evening_hub 22 0) = Inr (h', out)
      \<and> get_device h' ''Living Room Light''
          = Some (Light \<lparr>name = ''Living Room Light'', is_on = True, brightness = 50\<rparr>)
      \<and> get_device h' ''Front Door Light''
          = Some (Light \<lparr>name = ''Front Door Light'', is_on = False, brightness = 0\<rparr>)
      \<and> get_device h' ''Front Door Lock''
          = Some (Lock \<lparr>name = ''Front Door Lock'', is_on = True, is_locked = True\<rparr>))
   \<and> (\<exists>h1 o1 h2 o2 h3 o3.
          set_simulated_time (evening_hub 21 0) example_now 22 59 = Inr (h1, o1)
        \<and> get_device h1 ''Living Room Light''
            = Some (Light \<lparr>name = ''Living Room Light'', is_on = True, brightness = 50\<rparr>)
        \<and> set_simulated_time h1 example_now 23 1 = Inr (h2, o2)
        \<and> get_device h2 ''Living Room Light''
            = Some (Light \<lparr>name = ''Living Room Light'', is_on = True, brightness = 50\<rparr>)
        \<and> set_simulated_time (evening_hub 21 0) example_now 23 0 = Inr (h3, o3)
        \<and> get_device h3 ''Living Room Light''
            = Some (Light \<lparr>name = ''Living Room Light'', is_on = False, brightness = 50\<rparr>))"
  using
    time_rules_exact [OF evening_hub_facts(1) [of 23 0],
      of "\<lparr>name = ''Living Room Light'', is_on = True, brightness = 50\<rparr>"
         "\<lparr>name = ''Front Door Light'', is_on = False, brightness = 0\<rparr>"
         "\<lparr>name = ''Front Door Lock'', is_on = True, is_locked = False\<rparr>"]
    time_rules_exact [OF evening_hub_facts(1) [of 18 0],
      of "\<lparr>name = ''Living Room Light'', is_on = True, brightness = 50\<rparr>"
         "\<lparr>name = ''Front Door Light'', is_on = False, brightness = 0\<rparr>"
         "\<lparr>name = ''Front Door Lock'', is_on = True, is_locked = False\<rparr>"]
    time_rules_exact [OF evening_hub_facts(1) [of 22 0],
      of "\<lparr>name = ''Living Room Light'', is_on = True, brightness = 50\<rparr>"
         "\<lparr>name = ''Front Door Light'', is_on = False, brightness = 0\<rparr>"
         "\<lparr>name = ''Front Door Lock'', is_on = True, is_locked = False\<rparr>"]
    time_rules_exact [OF evening_hub_facts(1) [of 21 0],
      of "\<lparr>name = ''Living Room Light'', is_on = True, brightness = 50\<rparr>"
         "\<lparr>name = ''Front Door Light'', is_on = False, brightness = 0\<rparr>"
         "\<lparr>name = ''Front Door Lock'', is_on = True, is_locked = False\<rparr>"
         example_now example_now example_now]
  by (simp add: evening_hub_facts(2-6))

section \<open>The thermostat drift\<close>

lemma run_main_thermostat:
  assumes "run_automation_rules h = Inr (h', out)"
    and "get_device h ''Main Thermostat'' = Some (Thermostat t)" and "is_on t"
  shows "get_device h' ''Main Thermostat'' = Some (Thermostat (drifted t))"
  using assms(2,3)
  by (simp add: get_device_def lower_names run_automation_rules_devices [OF assms(1)])

lemma num_less_int_val: "num_val x = Some v \<Longrightarrow> num_less_int x n \<longleftrightarrow> v < of_int n"
  by (cases "(x, n)" rule: num_less_int.cases) auto

lemma int_less_num_val: "num_val x = Some v \<Longrightarrow> int_less_num n x \<longleftrightarrow> of_int n < v"
  by (cases "(n, x)" rule: int_less_num.cases) auto

lemma to_float_val:
  assumes "num_val x = Some v" "2 * v \<in> \<int>" "\<bar>v\<bar> \<le> 10 ^ 15"
  shows "to_float x = Inr (Finite v)"
proof (cases x)
  case (PyInt i)
  with assms(1) have v: "v = of_int i" by simp
  have "round_double (of_int i) = Finite (of_int i)"
    using assms(2,3) unfolding v by (rule round_double_exact)
  with PyInt v show ?thesis by simp
next
  case (PyFloat f)
  with assms(1) show ?thesis by (cases f) simp_all
qed

lemma num_add_half:
  assumes "num_val x = Some v" "2 * v \<in> \<int>" "\<bar>v\<bar> \<le> 10 ^ 12"
  shows "num_add x (1 / 2) = Inr (PyFloat (Finite (v + 1 / 2)))"
proof -
  have "\<bar>v\<bar> \<le> 10 ^ 15" using assms(3) by simp
  then have f: "to_float x = Inr (Finite v)"
    using to_float_val assms(1,2) by blast
  have "2 * (v + 1 / 2) = 2 * v + 1" by simp
  then have "2 * (v + 1 / 2) \<in> \<int>"
    using assms(2) by simp
  moreover have "\<bar>v + 1 / 2\<bar> \<le> 10 ^ 15"
    using assms(3) by simp
  ultimately have "round_double (v + 1 / 2) = Finite (v + 1 / 2)"
    by (rule round_double_exact)
  with f show ?thesis by (simp add: num_add_def)
qed

lemma num_sub_half:
  assumes "num_val x = Some v" "2 * v \<in> \<int>" "\<bar>v\<bar> \<le> 10 ^ 12"
  shows "num_sub x (1 / 2) = Inr (PyFloat (Finite (v - 1 / 2)))"
proof -
  have "\<bar>v\<bar> \<le> 10 ^ 15" using assms(3) by simp
  then have f: "to_float x = Inr (Finite v)"
    using to_float_val assms(1,2) by blast
  have "2 * (v - 1 / 2) = 2 * v - 1" by simp
  then have "2 * (v - 1 / 2) \<in> \<int>"
    using assms(2) by simp
  moreover have "\<bar>v - 1 / 2\<bar> \<le> 10 ^ 15"
    using assms(3) by simp
  ultimately have "round_double (v - 1 / 2) = Finite (v - 1 / 2)"
    by (rule round_double_exact)
  with f show ?thesis by (simp add: num_sub_def)
qed

lemma drift_exact:
  assumes "num_val (current_temp t) = Some v" "2 * v \<in> \<int>" "\<bar>v\<bar> \<le> 10 ^ 12"
  shows "\<exists>out. drift t = Inr (drifted t, out)"
    and "num_val (current_temp (drifted t)) =
      Some (if mode t = Heating \<and> v < of_int (target_temp t) then v + 1 / 2
            else if mode t = Cooling \<and> of_int (target_temp t) < v then v - 1 / 2
            else v)"
    and "target_temp (drifted t) = target_temp t"
    and "is_on (drifted t) = is_on t"
    and "name (drifted t) = name t"
  using assms(1)
  by (auto simp: drifted_def drift_def Let_def case_prod_beta update_mode_def
      num_add_half [OF assms] num_sub_half [OF assms]
      num_less_int_val [OF assms(1)] int_less_num_val [OF assms(1)])

lemma dead_band_val:
  "num_val x = Some v \<Longrightarrow>
   dead_band on x tgt =
     (if \<not> on then Off
      else if v < of_int tgt - 1 then Heating
      else if of_int tgt + 1 < v then Cooling
      else Idle)"
  by (simp add: dead_band_def num_less_int_val int_less_num_val)

lemma half_steps_exact:
  "2 * (23 + rat_of_nat j / 2) \<in> \<int>"
proof -
  have "2 * (23 + rat_of_nat j / 2) = of_int (46 + int j)" by simp
  then show ?thesis by (simp only: Ints_of_int)
qed

lemma drifted_cooling_scenario:
  assumes "j \<le> 100"
  shows "drifted \<lparr>name = nm, is_on = True, current_temp = PyFloat (Finite (23 + of_nat j / 2)),
                  target_temp = 22, mode = (if j = 0 then Idle else Cooling)\<rparr>
   = \<lparr>name = nm, is_on = True, current_temp = PyFloat (Finite (23 + of_nat (j - 1) / 2)),
      target_temp = 22, mode = (if j - 1 = 0 then Idle else Cooling)\<rparr>"
proof (cases j)
  case 0
  then show ?thesis by (simp add: drifted_def drift_def update_mode_def)
next
  case (Suc i)
  let ?x = "PyFloat (Finite (23 + rat_of_nat j / 2))"
  have b: "\<bar>23 + rat_of_nat j / 2\<bar> \<le> 10 ^ 12"
    using assms by simp
  have "num_sub ?x (1 / 2) = Inr (PyFloat (Finite (23 + rat_of_nat j / 2 - 1 / 2)))"
    by (rule num_sub_half [OF _ half_steps_exact b]) simp
  then show ?thesis
    using Suc by (simp add: drifted_def drift_def update_mode_def Let_def field_simps)
qed

lemma drifted_first_cycle:
  "drifted \<lparr>name = nm, is_on = True, current_temp = PyInt 25, target_temp = 22, mode = Cooling\<rparr>
   = \<lparr>name = nm, is_on = True, current_temp = PyFloat (Finite (49 / 2)), target_temp = 22,
      mode = Cooling\<rparr>"
proof -
  have "num_sub (PyInt 25) (1 / 2) = Inr (PyFloat (Finite (25 - 1 / 2)))"
    by (rule num_sub_half) simp_all
  then show ?thesis
    by (simp add: drifted_def drift_def update_mode_def Let_def)
qed

lemma cooling_cycles:
  assumes "expected_classes h" and "j \<le> 100"
    and "get_device h ''Main Thermostat'' =
      Some (Thermostat \<lparr>name = nm, is_on = True,
                        current_temp = PyFloat (Finite (23 + of_nat j / 2)),
                        target_temp = 22, mode = (if j = 0 then Idle else Cooling)\<rparr>)"
  shows "\<exists>h' out. exec_all h (replicate n Run_automation) = Inr (h', out)
     \<and> get_device h' ''Main Thermostat'' =
         Some (Thermostat \<lparr>name = nm, is_on = True,
                           current_temp = PyFloat (Finite (23 + of_nat (j - n) / 2)),
                           target_temp = 22, mode = (if j - n = 0 then Idle else Cooling)\<rparr>)"
  using assms
proof (induction n arbitrary: h j)
  case 0
  then show ?case by simp
next
  case (Suc n)
  obtain h1 o1 where run: "run_automation_rules h = Inr (h1, o1)"
    using run_automation_rules_returns [OF Suc.prems(1)] by blast
  have ec1: "expected_classes h1"
    using expected_classes_run [OF Suc.prems(1) run] .
  have j1: "j - 1 \<le> 100"
    using Suc.prems(2) by simp
  have g1: "get_device h1 ''Main Thermostat'' =
      Some (Thermostat \<lparr>name = nm, is_on = True,
                        current_temp = PyFloat (Finite (23 + of_nat (j - 1) / 2)),
                        target_temp = 22, mode = (if j - 1 = 0 then Idle else Cooling)\<rparr>)"
    using run_main_thermostat [OF run Suc.prems(3)]
    by (simp add: drifted_cooling_scenario [OF Suc.prems(2)])
  from Suc.IH [OF ec1 j1 g1] obtain h' out where
    "exec_all h1 (replicate n Run_automation) = Inr (h', out)"
    "get_device h' ''Main Thermostat'' =
         Some (Thermostat \<lparr>name = nm, is_on = True,
                           current_temp = PyFloat (Finite (23 + of_nat (j - 1 - n) / 2)),
                           target_temp = 22,
                           mode = (if j - 1 - n = 0 then Idle else Cooling)\<rparr>)"
    by blast
  with run show ?case by simp
qed

lemma main_hub_turn_on_thermostat:
  "\<exists>h1 o1. exec (main_hub now) (Turn_on ''Main Thermostat'') = Inr (h1, o1)
     \<and> expected_classes h1
     \<and> get_device h1 ''Main Thermostat'' =
         Some (Thermostat \<lparr>name = ''Main Thermostat'', is_on = True, current_temp = PyInt 25,
                           target_temp = 22, mode = Cooling\<rparr>)"
  by (simp add: main_hub_def SmartHomeHub_def add_device_def get_device_def put_device_def
      SmartLight_def SmartThermostat_def SmartDoorLock_def lower_names expected_classes_def
      thermostat_turn_on_def turn_on_def update_mode_def fits_float_int)

lemma scenario_cycles:
  assumes "expected_classes h1"
    and "get_device h1 ''Main Thermostat'' =
      Some (Thermostat \<lparr>name = nm, is_on = True, current_temp = PyInt 25,
                        target_temp = 22, mode = Cooling\<rparr>)"
  shows "\<exists>hn on. exec_all h1 (replicate n Run_automation) = Inr (hn, on)
     \<and> get_device hn ''Main Thermostat'' =
         Some (Thermostat \<lparr>name = nm, is_on = True,
                 current_temp =
                   (if n = 0 then PyInt 25 else PyFloat (Finite (23 + of_nat (4 - n) / 2))),
                 target_temp = 22, mode = (if 4 \<le> n then Idle else Cooling)\<rparr>)"
proof (cases n)
  case 0
  with assms(2) show ?thesis by simp
next
  case (Suc m)
  obtain h2 o2 where run: "run_automation_rules h1 = Inr (h2, o2)"
    using run_automation_rules_returns [OF assms(1)] by blast
  have ec2: "expected_classes h2"
    using expected_classes_run [OF assms(1) run] .
  have g2: "get_device h2 ''Main Thermostat'' =
      Some (Thermostat \<lparr>name = nm, is_on = True,
                        current_temp = PyFloat (Finite (23 + of_nat 3 / 2)),
                        target_temp = 22, mode = (if (3::nat) = 0 then Idle else Cooling)\<rparr>)"
    using run_main_thermostat [OF run assms(2)] by (simp add: drifted_first_cycle)
  obtain hn on where en: "exec_all h2 (replicate m Run_automation) = Inr (hn, on)"
    and gn: "get_device hn ''Main Thermostat'' =
         Some (Thermostat \<lparr>name = nm, is_on = True,
                           current_temp = PyFloat (Finite (23 + of_nat (3 - m) / 2)),
                           target_temp = 22, mode = (if 3 - m = 0 then Idle else Cooling)\<rparr>)"
    using cooling_cycles [OF ec2 _ g2, of m] by auto
  have k: "4 - Suc m = 3 - m" "(4 \<le> Suc m) = (3 - m = 0)"
    by auto
  show ?thesis
    unfolding Suc
  proof (intro exI conjI)
    show "exec_all h1 (replicate (Suc m) Run_automation) = Inr (hn, o2 @ on)"
      using run en by simp
    show "get_device hn ''Main Thermostat'' =
         Some (Thermostat \<lparr>name = nm, is_on = True,
                 current_temp =
                   (if Suc m = 0 then PyInt 25
                    else PyFloat (Finite (23 + of_nat (4 - Suc m) / 2))),
                 target_temp = 22, mode = (if 4 \<le> Suc m then Idle else Cooling)\<rparr>)"
      unfolding k using gn by (simp only: nat.distinct if_False)
  qed
qed

lemma drift_step_bounds:
  fixes v tgt :: rat
  assumes "v' = (if m = Heating \<and> v < tgt then v + 1 / 2
                 else if m = Cooling \<and> tgt < v then v - 1 / 2 else v)"
  shows "(v' < v \<longrightarrow> tgt - 1 < v') \<and> (v < v' \<longrightarrow> v' < tgt + 1)"
    and "m = (if v < tgt - 1 then Heating else if tgt + 1 < v then Cooling else Idle) \<longrightarrow>
          \<bar>v' - tgt\<bar> \<le> \<bar>v - tgt\<bar>
          \<and> (m = Cooling \<longrightarrow> v' = v - 1 / 2 \<and> tgt + 1 / 2 < v')
          \<and> (m = Heating \<longrightarrow> v' = v + 1 / 2 \<and> v' < tgt - 1 / 2)
          \<and> (m = Idle \<longrightarrow> v' = v)"
  using assms by (auto split: if_splits)

lemma round_double_1e16: "round_double 10000000000000000 = Finite 10000000000000000"
  by code_simp

lemma round_double_1e16_less_half:
  "round_double (10000000000000000 - 1 / 2) = Finite 10000000000000000"
  by code_simp

text \<open>
  An int that no double can hold stops the cycle: converting \<open>2\<^sup>1\<^sup>0\<^sup>2\<^sup>4\<close> to a float
  raises \<^verbatim>\<open>OverflowError\<close>.
\<close>

lemma drift_int_overflow:
  "drift \<lparr>name = nm, is_on = True, current_temp = PyInt (2 ^ 1024), target_temp = 22,
          mode = Cooling\<rparr> = Inl OverflowError"
proof -
  have "round_double (of_int (2 ^ 1024)) = PInf"
    using round_double_power_overflow [of 1024] by simp
  then have "num_sub (PyInt (2 ^ 1024)) (1 / 2) = Inl OverflowError"
    by (simp add: num_sub_def)
  then show ?thesis
    by (simp add: drift_def)
qed

text \<open>
  C4, as stated, fails: the step is float arithmetic.  A thermostat constructed with the
  int \<open>10\<^sup>1\<^sup>6\<close> and target 22 is Cooling once turned on, and one automation cycle leaves
  its temperature at the float \<open>10\<^sup>1\<^sup>6\<close>: the difference \<open>10\<^sup>1\<^sup>6 - 0.5\<close> is not a double and
  rounds back, so the temperature is not lowered by 0.5.
\<close>

theorem thermostat_drift_rounding_counterexample:
  "exec_all (fst (SmartHomeHub example_now))
     [New_thermostat ''Main Thermostat'' (PyInt 10000000000000000) 22,
      Turn_on ''Main Thermostat'', Run_automation]
   = Inr (\<lparr>devices =
             [''main thermostat'' \<mapsto>
                Thermostat \<lparr>name = ''Main Thermostat'', is_on = True,
                            current_temp = PyFloat (Finite 10000000000000000),
                            target_temp = 22, mode = Cooling\<rparr>],
           simulated_time =
             \<lparr>ordinal = 739923, hour = 10, minute = 30, second = 0, microsecond = 0\<rparr>\<rparr>,
          [M_added_device ''Main Thermostat'',
           M_turned_on ''Main Thermostat'',
           M_mode_cooling ''Main Thermostat'' (PyInt 10000000000000000) 22,
           M_running_rules,
           M_temp_drop ''Main Thermostat'' (PyFloat (Finite 10000000000000000)),
           M_mode_cooling ''Main Thermostat'' (PyFloat (Finite 10000000000000000)) 22,
           M_rules_complete])
   \<and> num_val (PyFloat (Finite 10000000000000000)) \<noteq> Some (10000000000000000 - 1 / 2)"
  by (simp add: SmartHomeHub_def example_now_def add_device_def SmartThermostat_def
      get_device_def put_device_def lower_names thermostat_turn_on_def turn_on_def
      update_mode_def run_automation_rules_def rule1_def rule2_def rule3_def rule4_def
      drift_def num_sub_def round_double_1e16 round_double_1e16_less_half [simplified] Let_def)

text \<open>
  C4, amended.  On a hub whose lock and thermostat rules find devices of their class, with
  a thermostat registered as "Main Thermostat" that is on and whose current temperature
  \<open>v\<close> is a multiple of 1/2 of magnitude at most \<open>10\<^sup>1\<^sup>2\<close> (every temperature the program
  of \<^verbatim>\<open>main\<close> reaches is), an automation cycle returns and leaves that thermostat with:
  the temperature \<open>v + 1/2\<close> when the mode was Heating and \<open>v\<close> below the target,
  \<open>v - 1/2\<close> when the mode was Cooling and \<open>v\<close> above the target, \<open>v\<close> otherwise; the mode
  recomputed from the new temperature by the dead-band rule; target, power flag and name
  unchanged.  A lowered temperature is still above \<open>target - 1\<close> and a raised one still
  below \<open>target + 1\<close>; and when the mode was the dead-band mode before the cycle, the
  distance to the target does not grow and a step from outside the dead band stays more
  than 1/2 away from the target on the same side.  In the scenario of \<^verbatim>\<open>main\<close> (current
  25, target 22): turning the thermostat on gives Cooling, one cycle gives 24.5 and
  Cooling, and \<open>n\<close> cycles give \<open>23 + (4 - n) / 2\<close> while \<open>n \<le> 4\<close> and 23 with Idle from
  then on.
\<close>

theorem thermostat_drift_cycle:
  assumes "expected_classes h"
    and "get_device h ''Main Thermostat'' = Some (Thermostat t)" and "is_on t"
    and "num_val (current_temp t) = Some v" and "2 * v \<in> \<int>" and "\<bar>v\<bar> \<le> 10 ^ 12"
  shows "(\<exists>h' out t' v'. run_automation_rules h = Inr (h', out)
      \<and> get_device h' ''Main Thermostat'' = Some (Thermostat t')
      \<and> num_val (current_temp t') = Some v'
      \<and> v' = (if mode t = Heating \<and> v < of_int (target_temp t) then v + 1 / 2
               else if mode t = Cooling \<and> of_int (target_temp t) < v then v - 1 / 2
               else v)
      \<and> mode t' = dead_band True (current_temp t') (target_temp t')
      \<and> target_temp t' = target_temp t \<and> is_on t' \<and> name t' = name t
      \<and> (v' < v \<longrightarrow> of_int (target_temp t) - 1 < v')
      \<and> (v < v' \<longrightarrow> v' < of_int (target_temp t) + 1)
      \<and> (thermo_inv t \<longrightarrow>
            \<bar>v' - of_int (target_temp t)\<bar> \<le> \<bar>v - of_int (target_temp t)\<bar>
          \<and> (mode t = Cooling \<longrightarrow> v' = v - 1 / 2 \<and> of_int (target_temp t) + 1 / 2 < v')
          \<and> (mode t = Heating \<longrightarrow> v' = v + 1 / 2 \<and> v' < of_int (target_temp t) - 1 / 2)
          \<and> (mode t = Idle \<longrightarrow> v' = v)))
   \<and> (\<exists>h1 o1 h2 o2 hn on.
         exec (main_hub now) (Turn_on ''Main Thermostat'') = Inr (h1, o1)
       \<and> get_device h1 ''Main Thermostat'' =
           Some (Thermostat \<lparr>name = ''Main Thermostat'', is_on = True, current_temp = PyInt 25,
                             target_temp = 22, mode = Cooling\<rparr>)
       \<and> run_automation_rules h1 = Inr (h2, o2)
       \<and> get_device h2 ''Main Thermostat'' =
           Some (Thermostat \<lparr>name = ''Main Thermostat'', is_on = True,
                             current_temp = PyFloat (Finite (49 / 2)),
                             target_temp = 22, mode = Cooling\<rparr>)
       \<and> exec_all h1 (replicate n Run_automation) = Inr (hn, on)
       \<and> get_device hn ''Main Thermostat'' =
           Some (Thermostat \<lparr>name = ''Main Thermostat'', is_on = True,
                   current_temp =
                     (if n = 0 then PyInt 25 else PyFloat (Finite (23 + of_nat (4 - n) / 2))),
                   target_temp = 22, mode = (if 4 \<le> n then Idle else Cooling)\<rparr>))"
proof (rule conjI)
  obtain h' out where run: "run_automation_rules h = Inr (h', out)"
    using run_automation_rules_returns [OF assms(1)] by blast
  let ?t' = "drifted t"
  define v' where "v' = (if mode t = Heating \<and> v < of_int (target_temp t) then v + 1 / 2
               else if mode t = Cooling \<and> of_int (target_temp t) < v then v - 1 / 2
               else v)"
  have g: "get_device h' ''Main Thermostat'' = Some (Thermostat ?t')"
    using run_main_thermostat [OF run assms(2,3)] .
  have val: "num_val (current_temp ?t') = Some v'"
    unfolding v'_def by (rule drift_exact(2) [OF assms(4-6)])
  have rest: "target_temp ?t' = target_temp t \<and> is_on ?t' \<and> name ?t' = name t"
    using drift_exact(3-5) [OF assms(4-6)] assms(3) by simp
  obtain dout where "drift t = Inr (?t', dout)"
    using drift_exact(1) [OF assms(4-6)] by blast
  then have "thermo_inv ?t'"
    by (rule thermo_inv_drift)
  then have m: "mode ?t' = dead_band True (current_temp ?t') (target_temp ?t')"
    using rest by (simp add: thermo_inv_def)
  have b1: "(v' < v \<longrightarrow> of_int (target_temp t) - 1 < v')
      \<and> (v < v' \<longrightarrow> v' < of_int (target_temp t) + 1)"
    using drift_step_bounds(1) [OF v'_def] .
  have "thermo_inv t \<longrightarrow>
      mode t = (if v < of_int (target_temp t) - 1 then Heating
                else if of_int (target_temp t) + 1 < v then Cooling else Idle)"
    using assms(3) by (simp add: thermo_inv_def dead_band_val [OF assms(4)])
  then have b2: "thermo_inv t \<longrightarrow>
            \<bar>v' - of_int (target_temp t)\<bar> \<le> \<bar>v - of_int (target_temp t)\<bar>
          \<and> (mode t = Cooling \<longrightarrow> v' = v - 1 / 2 \<and> of_int (target_temp t) + 1 / 2 < v')
          \<and> (mode t = Heating \<longrightarrow> v' = v + 1 / 2 \<and> v' < of_int (target_temp t) - 1 / 2)
          \<and> (mode t = Idle \<longrightarrow> v' = v)"
    using drift_step_bounds(2) [OF v'_def] by blast
  show "\<exists>h' out t' v'. run_automation_rules h = Inr (h', out)
      \<and> get_device h' ''Main Thermostat'' = Some (Thermostat t')
      \<and> num_val (current_temp t') = Some v'
      \<and> v' = (if mode t = Heating \<and> v < of_int (target_temp t) then v + 1 / 2
               else if mode t = Cooling \<and> of_int (target_temp t) < v then v - 1 / 2
               else v)
      \<and> mode t' = dead_band True (current_temp t') (target_temp t')
      \<and> target_temp t' = target_temp t \<and> is_on t' \<and> name t' = name t
      \<and> (v' < v \<longrightarrow> of_int (target_temp t) - 1 < v')
      \<and> (v < v' \<longrightarrow> v' < of_int (target_temp t) + 1)
      \<and> (thermo_inv t \<longrightarrow>
            \<bar>v' - of_int (target_temp t)\<bar> \<le> \<bar>v - of_int (target_temp t)\<bar>
          \<and> (mode t = Cooling \<longrightarrow> v' = v - 1 / 2 \<and> of_int (target_temp t) + 1 / 2 < v')
          \<and> (mode t = Heating \<longrightarrow> v' = v + 1 / 2 \<and> v' < of_int (target_temp t) - 1 / 2)
          \<and> (mode t = Idle \<longrightarrow> v' = v))"
    using run g val v'_def m rest b1 b2 by blast
next
  obtain h1 o1 where e1: "exec (main_hub now) (Turn_on ''Main Thermostat'') = Inr (h1, o1)"
    and ec1: "expected_classes h1"
    and g1: "get_device h1 ''Main Thermostat'' =
         Some (Thermostat \<lparr>name = ''Main Thermostat'', is_on = True, current_temp = PyInt 25,
                           target_temp = 22, mode = Cooling\<rparr>)"
    using main_hub_turn_on_thermostat by blast
  obtain h2 o2 where r2: "run_automation_rules h1 = Inr (h2, o2)"
    using run_automation_rules_returns [OF ec1] by blast
  have g2: "get_device h2 ''Main Thermostat'' =
           Some (Thermostat \<lparr>name = ''Main Thermostat'', is_on = True,
                             current_temp = PyFloat (Finite (49 / 2)),
                             target_temp = 22, mode = Cooling\<rparr>)"
    using run_main_thermostat [OF r2 g1] by (simp add: drifted_first_cycle)
  obtain hn on where en: "exec_all h1 (replicate n Run_automation) = Inr (hn, on)"
    and gn: "get_device hn ''Main Thermostat'' =
         Some (Thermostat \<lparr>name = ''Main Thermostat'', is_on = True,
                 current_temp =
                   (if n = 0 then PyInt 25 else PyFloat (Finite (23 + of_nat (4 - n) / 2))),
                 target_temp = 22, mode = (if 4 \<le> n then Idle else Cooling)\<rparr>)"
    using scenario_cycles [OF ec1 g1, of n] by blast
  from e1 g1 r2 g2 en gn show "\<exists>h1 o1 h2 o2 hn on.
         exec (main_hub now) (Turn_on ''Main Thermostat'') = Inr (h1, o1)
       \<and> get_device h1 ''Main Thermostat'' =
           Some (Thermostat \<lparr>name = ''Main Thermostat'', is_on = True, current_temp = PyInt 25,
                             target_temp = 22, mode = Cooling\<rparr>)
       \<and> run_automation_rules h1 = Inr (h2, o2)
       \<and> get_device h2 ''Main Thermostat'' =
           Some (Thermostat \<lparr>name = ''Main Thermostat'', is_on = True,
                             current_temp = PyFloat (Finite (49 / 2)),
                             target_temp = 22, mode = Cooling\<rparr>)
       \<and> exec_all h1 (replicate n Run_automation) = Inr (hn, on)
       \<and> get_device hn ''Main Thermostat'' =
           Some (Thermostat \<lparr>name = ''Main Thermostat'', is_on = True,
                   current_temp =
                     (if n = 0 then PyInt 25 else PyFloat (Finite (23 + of_nat (4 - n) / 2))),
                   target_temp = 22, mode = (if 4 \<le> n then Idle else Cooling)\<rparr>)"
    by blast
qed

theorem thermostat_drift_cycle_witness:
  "(\<exists>h' out t'. run_automation_rules (evening_hub 10 30) = Inr (h', out)
      \<and> get_device h' ''Main Thermostat'' = Some (Thermostat t')
      \<and> num_val (current_temp t') = Some (49 / 2) \<and> mode t' = Cooling
      \<and> target_temp t' = 22 \<and> is_on t')
   \<and> (\<exists>h1 o1 h2 o2 hn on.
         exec (main_hub example_now) (Turn_on ''Main Thermostat'') = Inr (h1, o1)
       \<and> get_device h1 ''Main Thermostat'' =
           Some (Thermostat \<lparr>name = ''Main Thermostat'', is_on = True, current_temp = PyInt 25,
                             target_temp = 22, mode = Cooling\<rparr>)
       \<and> run_automation_rules h1 = Inr (h2, o2)
       \<and> get_device h2 ''Main Thermostat'' =
           Some (Thermostat \<lparr>name = ''Main Thermostat'', is_on = True,
                             current_temp = PyFloat (Finite (49 / 2)),
                             target_temp = 22, mode = Cooling\<rparr>)
       \<and> exec_all h1 (replicate 6 Run_automation) = Inr (hn, on)
       \<and> get_device hn ''Main Thermostat'' =
           Some (Thermostat \<lparr>name = ''Main Thermostat'', is_on = True,
                             current_temp = PyFloat (Finite 23),
                             target_temp = 22, mode = Idle\<rparr>))"
proof -
  have on: "is_on \<lparr>name = ''Main Thermostat'', is_on = True, current_temp = PyInt 25,
                   target_temp = 22, mode = Cooling\<rparr>"
    by simp
  have val: "num_val (current_temp \<lparr>name = ''Main Thermostat'', is_on = True,
      current_temp = PyInt 25, target_temp = 22, mode = Cooling\<rparr>) = Some 25"
    by simp
  have half: "2 * (25::rat) \<in> \<int>" "\<bar>25::rat\<bar> \<le> 10 ^ 12"
    by simp_all
  from thermostat_drift_cycle [OF evening_hub_facts(1) evening_hub_facts(5) on val half,
      of 10 30 example_now 6]
  show ?thesis
    by (auto simp: dead_band_val)
qed

end
